theory Spec2Isabelle
  imports Main "HOL-Library.AList"
begin

section \<open>Python strings\<close>

text \<open>
  A Python \<^verbatim>\<open>str\<close> is a sequence of Unicode code points, and \<^verbatim>\<open>len\<close>,
  \<^verbatim>\<open>strip\<close>, \<^verbatim>\<open>replace\<close> and the regular expressions of the handlers all
  work on code points. A string is therefore a list of code points (natural numbers);
  an ASCII literal of the source is written \<open>S ''...''\<close>.
\<close>

type_synonym pystr = "nat list"

abbreviation (input) S :: "string \<Rightarrow> pystr" where
  "S s \<equiv> map of_char s"

text \<open>
  The Unicode table of decimal digits (category Nd, what \<^verbatim>\<open>\d\<close> matches in a
  \<^verbatim>\<open>str\<close> pattern and what \<^verbatim>\<open>int()\<close> accepts) belongs to the Python runtime
  and not to the repository. On ASCII it is fixed here (\<^verbatim>\<open>0\<close> to \<^verbatim>\<open>9\<close>); beyond
  ASCII it is the parameter \<open>nd\<close> of every function that needs it.
\<close>

definition decimal :: "(nat \<Rightarrow> nat option) \<Rightarrow> nat \<Rightarrow> nat option" where
  "decimal nd c =
     (if c < 128 then (if 48 \<le> c \<and> c \<le> 57 then Some (c - 48) else None) else nd c)"

definition isdecimal :: "(nat \<Rightarrow> nat option) \<Rightarrow> nat \<Rightarrow> bool" where
  "isdecimal nd c = (decimal nd c \<noteq> None)"

text \<open>\<^verbatim>\<open>str.isspace\<close> of one character (the white space of \<^verbatim>\<open>str.strip()\<close>).\<close>

definition isspace :: "nat \<Rightarrow> bool" where
  "isspace c = (c \<in> {9, 10, 11, 12, 13, 28, 29, 30, 31, 32, 133, 160, 5760,
                      8192, 8193, 8194, 8195, 8196, 8197, 8198, 8199, 8200, 8201, 8202,
                      8232, 8233, 8239, 8287, 12288})"

definition strip :: "pystr \<Rightarrow> pystr" where
  "strip s = rev (dropWhile isspace (rev (dropWhile isspace s)))"

fun startswith :: "pystr \<Rightarrow> pystr \<Rightarrow> bool" where
  "startswith s [] = True"
| "startswith [] (p # ps) = False"
| "startswith (c # cs) (p # ps) = (c = p \<and> startswith cs ps)"

text \<open>
  \<^verbatim>\<open>s.replace(old, "")\<close>: every occurrence of \<open>old\<close>, found from left to right
  and not overlapping, is deleted; the result is not scanned again. With an empty
  \<open>old\<close> the string is unchanged.
\<close>

function replace_del :: "pystr \<Rightarrow> pystr \<Rightarrow> pystr" where
  "replace_del old [] = []"
| "replace_del old (c # cs) =
     (if old \<noteq> [] \<and> startswith (c # cs) old
      then replace_del old (drop (length old) (c # cs))
      else c # replace_del old cs)"
  by pat_completeness auto
termination
  by (relation "measure (\<lambda>(old, s). length s)") auto

section \<open>Phone numbers\<close>

text \<open>
  \<^verbatim>\<open>re.sub(r'\D', '', phone)\<close>: the string is scanned once; a character that is
  not a decimal digit matches \<^verbatim>\<open>\D\<close> and is replaced by the empty string, a digit
  is copied.
\<close>

fun re_sub_nondigit :: "(nat \<Rightarrow> nat option) \<Rightarrow> pystr \<Rightarrow> pystr" where
  "re_sub_nondigit nd [] = []"
| "re_sub_nondigit nd (c # cs) =
     (if isdecimal nd c then c # re_sub_nondigit nd cs else re_sub_nondigit nd cs)"

text \<open>
  \<^verbatim>\<open>format_phone_number(phone: str | None)\<close>. \<^verbatim>\<open>not phone\<close> holds for
  \<^verbatim>\<open>None\<close> and for the empty string; code point 43 is \<^verbatim>\<open>+\<close>.
\<close>

definition format_phone_number :: "(nat \<Rightarrow> nat option) \<Rightarrow> pystr option \<Rightarrow> pystr" where
  "format_phone_number nd phone =
     (case phone of
        None \<Rightarrow> []
      | Some p \<Rightarrow>
          if p = [] then []
          else let digits = re_sub_nondigit nd p
               in if digits = [] then [] else 43 # digits)"

section \<open>Other Python built-ins the handlers call\<close>

datatype py_error =
    AttributeError
  | ValueError
  | IndexError
  | IllegalMonthError
  | OSError
  | UnicodeDecodeError
  | RecursionError
  | ValidationError

text \<open>
  \<^verbatim>\<open>int(s)\<close> of a \<^verbatim>\<open>str\<close>, base 10. White space is skipped at both ends (the
  ASCII characters tab, line feed, vertical tab, form feed, carriage return and space,
  and every non-ASCII Unicode space), then comes an optional sign and a non-empty run
  of decimal digits in which single underscores (code point 95) may stand between two
  digits. Anything else is a \<^verbatim>\<open>ValueError\<close>, here \<open>None\<close>. (CPython also refuses
  more than 4300 digits; a chat message has at most 4096 characters.)
\<close>

definition int_space :: "nat \<Rightarrow> bool" where
  "int_space c = (c \<in> {9, 10, 11, 12, 13, 32} \<or> (127 < c \<and> isspace c))"

fun int_digits :: "(nat \<Rightarrow> nat option) \<Rightarrow> nat \<Rightarrow> pystr \<Rightarrow> nat option" where
  "int_digits nd acc [] = Some acc"
| "int_digits nd acc (c # cs) =
     (if c = 95 then
        (case cs of
           [] \<Rightarrow> None
         | d # ds \<Rightarrow>
             (case decimal nd d of
                None \<Rightarrow> None
              | Some v \<Rightarrow> int_digits nd (10 * acc + v) ds))
      else
        (case decimal nd c of
           None \<Rightarrow> None
         | Some v \<Rightarrow> int_digits nd (10 * acc + v) cs))"

definition int_unsigned :: "(nat \<Rightarrow> nat option) \<Rightarrow> pystr \<Rightarrow> nat option" where
  "int_unsigned nd s =
     (case s of
        [] \<Rightarrow> None
      | c # cs \<Rightarrow> (case decimal nd c of None \<Rightarrow> None | Some v \<Rightarrow> int_digits nd v cs))"

definition py_int :: "(nat \<Rightarrow> nat option) \<Rightarrow> pystr \<Rightarrow> int option" where
  "py_int nd s =
     (case rev (dropWhile int_space (rev (dropWhile int_space s))) of
        [] \<Rightarrow> None
      | c # cs \<Rightarrow>
          if c = 43 then map_option int (int_unsigned nd cs)
          else if c = 45 then map_option (\<lambda>n. - int n) (int_unsigned nd cs)
          else map_option int (int_unsigned nd (c # cs)))"

text \<open>\<^verbatim>\<open>str(n)\<close> of an integer: its decimal digits, after a minus sign if negative.\<close>

fun str_nat :: "nat \<Rightarrow> pystr" where
  "str_nat n = (if n < 10 then [48 + n] else str_nat (n div 10) @ [48 + n mod 10])"

declare str_nat.simps [simp del]

definition py_str :: "int \<Rightarrow> pystr" where
  "py_str i = (if i < 0 then 45 # str_nat (nat (- i)) else str_nat (nat i))"

text \<open>\<^verbatim>\<open>s.split(sep)\<close> for a separator of one character, and \<^verbatim>\<open>sep.join(xs)\<close>.\<close>

fun split_on :: "nat \<Rightarrow> pystr \<Rightarrow> pystr list" where
  "split_on sep [] = [[]]"
| "split_on sep (c # cs) =
     (if c = sep then [] # split_on sep cs
      else (case split_on sep cs of
              [] \<Rightarrow> [[c]]
            | p # ps \<Rightarrow> (c # p) # ps))"

fun join :: "pystr \<Rightarrow> pystr list \<Rightarrow> pystr" where
  "join sep [] = []"
| "join sep [x] = x"
| "join sep (x # y # ys) = x @ sep @ join sep (y # ys)"

text \<open>\<^verbatim>\<open>parts[i]\<close>, which raises \<^verbatim>\<open>IndexError\<close> out of range.\<close>

definition item :: "'a list \<Rightarrow> nat \<Rightarrow> 'a option" where
  "item xs i = (if i < length xs then Some (xs ! i) else None)"

text \<open>\<^verbatim>\<open>sub in s\<close> for strings.\<close>

fun contains :: "pystr \<Rightarrow> pystr \<Rightarrow> bool" where
  "contains [] sub = (sub = [])"
| "contains (c # cs) sub = (startswith (c # cs) sub \<or> contains cs sub)"

section \<open>The conversation state\<close>

text \<open>The steps of the questionnaire (\<^verbatim>\<open>states/travel_form.py\<close>).\<close>

datatype TravelForm =
    TravelForm_phone
  | TravelForm_current_city
  | TravelForm_cities_to_visit
  | TravelForm_other_city
  | TravelForm_days
  | TravelForm_other_days
  | TravelForm_people
  | TravelForm_other_people
  | TravelForm_need_translator
  | TravelForm_translator_language
  | TravelForm_other_language
  | TravelForm_start_date
  | TravelForm_review
  | TravelForm_lang_code
  | TravelForm_referral_source
  | TravelForm_other_referral

text \<open>
  The data dictionary of the FSM context, one field per key the handlers use;
  \<open>None\<close> is an absent key (\<^verbatim>\<open>data.get(key)\<close> gives \<^verbatim>\<open>None\<close>). For
  \<open>editing_field\<close>, which the handlers also set to \<^verbatim>\<open>None\<close> and only ever read
  with \<^verbatim>\<open>data.get\<close>, \<open>None\<close> stands for both. The key
  \<^verbatim>\<open>last_bot_message_id\<close> is left out: it holds the number of the bot's last chat
  message, is written after every message sent and is read only to delete that
  message from the chat.
\<close>

record form_data =
  user_id :: "int option"
  first_name :: "pystr option"
  full_name :: "pystr option"
  lang_code :: "pystr option"
  change_language_only :: "bool option"
  phone :: "pystr option"
  current_city :: "pystr option"
  cities_to_visit :: "pystr list option"
  other_cities :: "pystr list option"
  days :: "pystr option"
  people :: "pystr option"
  need_translator :: "pystr option"
  translator_language :: "pystr option"
  start_date :: "pystr option"
  referral_source :: "pystr option"
  editing_field :: "pystr option"

definition empty_data :: form_data where
  "empty_data =
     \<lparr>user_id = None, first_name = None, full_name = None, lang_code = None,
      change_language_only = None, phone = None, current_city = None,
      cities_to_visit = None, other_cities = None, days = None, people = None,
      need_translator = None, translator_language = None, start_date = None,
      referral_source = None, editing_field = None\<rparr>"

text \<open>
  A session is what the \<^verbatim>\<open>FSMContext\<close> of one user holds: the current step
  (\<open>None\<close> when there is none) and the data. \<^verbatim>\<open>state.clear()\<close> resets both.
\<close>

record session =
  fsm_state :: "TravelForm option"
  fsm_data :: form_data

definition clear :: session where
  "clear = \<lparr>fsm_state = None, fsm_data = empty_data\<rparr>"

definition update_data :: "(form_data \<Rightarrow> form_data) \<Rightarrow> session \<Rightarrow> session" where
  "update_data f s = s\<lparr>fsm_data := f (fsm_data s)\<rparr>"

definition set_state :: "TravelForm \<Rightarrow> session \<Rightarrow> session" where
  "set_state st s = s\<lparr>fsm_state := Some st\<rparr>"

text \<open>\<^verbatim>\<open>data.get(key, [])\<close> for the two city lists.\<close>

definition get_list :: "'a list option \<Rightarrow> 'a list" where
  "get_list v = (case v of None \<Rightarrow> [] | Some xs \<Rightarrow> xs)"

text \<open>
  What a handler shows to the user, in the order of the calls. The localized text is
  named by its key in the translation table; keyboards are not part of the trace, and
  neither are the deletion of old messages and a \<^verbatim>\<open>callback.answer()\<close> without
  text. \<open>Raised\<close> ends the trace of a handler that an exception left; what the handler
  stored before stays stored.
\<close>

datatype reply =
    Answer string
  | EditText string
  | EditMarkup
  | Alert string
  | Raised py_error

text \<open>
  An incoming message: its text, its caption (of a photo or a file), the phone number of
  a shared contact, the latitude and longitude of a shared location (as Python prints
  the two floats).
\<close>

record message =
  msg_text :: "pystr option"
  msg_caption :: "pystr option"
  msg_contact :: "pystr option"
  msg_location :: "(pystr \<times> pystr) option"

text \<open>
  A handler runs when the filters of its decorator accept the event; \<open>None\<close> says
  that they do not, so that the event is left to the handlers registered after it.
\<close>

definition handle ::
  "(session \<Rightarrow> 'e \<Rightarrow> bool) \<Rightarrow> (session \<Rightarrow> 'e \<Rightarrow> session \<times> reply list) \<Rightarrow>
   session \<Rightarrow> 'e \<Rightarrow> (session \<times> reply list) option" where
  "handle accepts body s e = (if accepts s e then Some (body s e) else None)"

text \<open>The filter of a callback handler: \<^verbatim>\<open>(TravelForm.x, F.data.startswith(prefix))\<close>.\<close>

definition callback_filter :: "TravelForm \<Rightarrow> pystr \<Rightarrow> session \<Rightarrow> pystr \<Rightarrow> bool" where
  "callback_filter st prefix s d = (fsm_state s = Some st \<and> startswith d prefix)"

text \<open>
  \<^verbatim>\<open>show_review\<close> and \<^verbatim>\<open>show_start_date_calendar\<close>. Every caller passes a
  \<^verbatim>\<open>Message\<close> (for a callback, \<^verbatim>\<open>callback.message\<close>), so the summary or the
  calendar of the current month is sent as a new message.
\<close>

definition show_review :: "session \<Rightarrow> session \<times> reply list" where
  "show_review s = (set_state TravelForm_review s, [Answer ''review_info''])"

definition show_start_date_calendar :: "session \<Rightarrow> session \<times> reply list" where
  "show_start_date_calendar s = (set_state TravelForm_start_date s, [Answer ''select_travel_date''])"

text \<open>Sequencing inside a handler: the replies of a call come after those sent before.\<close>

definition after :: "reply list \<Rightarrow> session \<times> reply list \<Rightarrow> session \<times> reply list" where
  "after out r = (fst r, out @ snd r)"

section \<open>The handlers of the questionnaire\<close>

text \<open>
  Each handler is the body of the source function of the same name, with the filter of
  its decorator as a predicate of its own. The calls to the chat transport (send, edit
  and delete a message) are taken to return normally.
\<close>

subsection \<open>Phone\<close>

text \<open>
  \<^verbatim>\<open>F.text.regexp(r'[\+]?[1-9][\d]{0,15}')\<close> matches at the start of the text: an
  optional \<^verbatim>\<open>+\<close>, then one of \<^verbatim>\<open>1\<close> to \<^verbatim>\<open>9\<close>; the digits after it are
  optional.
\<close>

definition phone_regexp :: "pystr \<Rightarrow> bool" where
  "phone_regexp t =
     (case t of
        [] \<Rightarrow> False
      | c # cs \<Rightarrow>
          if c = 43 then (case cs of [] \<Rightarrow> False | d # ds \<Rightarrow> 49 \<le> d \<and> d \<le> 57)
          else 49 \<le> c \<and> c \<le> 57)"

definition process_phone_filter :: "session \<Rightarrow> message \<Rightarrow> bool" where
  "process_phone_filter s m =
     (fsm_state s = Some TravelForm_phone \<and>
      (msg_contact m \<noteq> None \<or>
       (case msg_text m of None \<Rightarrow> False | Some t \<Rightarrow> phone_regexp t)))"

text \<open>
  The phone number as the message gives it: the number of the shared contact, else the
  stripped text, else \<^verbatim>\<open>None\<close>.
\<close>

definition phone_input :: "message \<Rightarrow> pystr option" where
  "phone_input m =
     (if msg_contact m \<noteq> None then msg_contact m
      else (case msg_text m of
              None \<Rightarrow> None
            | Some t \<Rightarrow> if t = [] then None else Some (strip t)))"

definition process_phone :: "(nat \<Rightarrow> nat option) \<Rightarrow> session \<Rightarrow> message \<Rightarrow> session \<times> reply list" where
  "process_phone nd s m =
     (let formatted_phone = format_phone_number nd (phone_input m)
      in if formatted_phone \<noteq> [] then
           (let s1 = update_data (\<lambda>d. d\<lparr>phone := Some formatted_phone\<rparr>) s
            in if editing_field (fsm_data s1) = Some (S ''phone'') then
                 after [Answer ''phone_updated'']
                   (show_review (update_data (\<lambda>d. d\<lparr>editing_field := None\<rparr>) s1))
               else (set_state TravelForm_current_city s1, [Answer ''share_current_city'']))
         else (s, [Answer ''invalid_phone'']))"

subsection \<open>Current city\<close>

definition process_current_city_filter :: "session \<Rightarrow> message \<Rightarrow> bool" where
  "process_current_city_filter s m =
     (fsm_state s = Some TravelForm_current_city \<and>
      (msg_location m \<noteq> None \<or>
       (case msg_text m of None \<Rightarrow> False | Some t \<Rightarrow> t \<noteq> [])))"

definition store_current_city :: "session \<Rightarrow> pystr \<Rightarrow> session \<times> reply list" where
  "store_current_city s city =
     (if city \<noteq> [] then
        (let s1 = update_data (\<lambda>d. d\<lparr>current_city := Some city\<rparr>) s
         in if editing_field (fsm_data s1) = Some (S ''current_city'') then
              after [Answer ''city_updated'']
                (show_review (update_data (\<lambda>d. d\<lparr>editing_field := None\<rparr>) s1))
            else
              (set_state TravelForm_cities_to_visit
                 (update_data (\<lambda>d. d\<lparr>cities_to_visit := Some [], other_cities := Some []\<rparr>) s1),
               [Answer ''select_cities'']))
      else (s, []))"

definition process_current_city :: "session \<Rightarrow> message \<Rightarrow> session \<times> reply list" where
  "process_current_city s m =
     (case msg_location m of
        Some (latitude, longitude) \<Rightarrow>
          store_current_city s (S ''Lat: '' @ latitude @ S '', Lon: '' @ longitude)
      | None \<Rightarrow>
          (case msg_text m of
             None \<Rightarrow> (s, [])
           | Some t \<Rightarrow>
               if t = [] then (s, [])
               else (let city = strip t
                     in if length city < 2 then (s, [Answer ''invalid_city''])
                        else store_current_city s city)))"

subsection \<open>Cities to visit\<close>

text \<open>
  The eight destinations of the keyboard: Mecca, Medina, Dubai, Istanbul,
  Sharm el-Sheikh, Cairo, Doha and Jeddah, written in Cyrillic in the source.
\<close>

definition known_cities :: "pystr list" where
  "known_cities =
     [[1052, 1077, 1082, 1082, 1072],
      [1052, 1077, 1076, 1080, 1085, 1072],
      [1044, 1091, 1073, 1072, 1081],
      [1057, 1090, 1072, 1084, 1073, 1091, 1083],
      [1064, 1072, 1088, 1084, 45, 1101, 1096, 45, 1064, 1077, 1081, 1093],
      [1050, 1072, 1080, 1088],
      [1044, 1086, 1093, 1072],
      [1044, 1078, 1080, 1076, 1076, 1072]]"

text \<open>
  The toggle of the last branch, on the two lists. \<^verbatim>\<open>list.remove(x)\<close> deletes the
  first occurrence of \<open>x\<close>, \<^verbatim>\<open>list.append(x)\<close> adds it at the end.
\<close>

definition toggle_city :: "pystr \<Rightarrow> pystr list \<times> pystr list \<Rightarrow> pystr list \<times> pystr list" where
  "toggle_city city_name both =
     (let selected_cities = fst both; other = snd both
      in if city_name \<in> set selected_cities then (remove1 city_name selected_cities, other)
         else if city_name \<in> set other then (selected_cities, remove1 city_name other)
         else if city_name \<in> set known_cities then (selected_cities @ [city_name], other)
         else (selected_cities, other @ [city_name]))"

definition process_city_selection :: "session \<Rightarrow> pystr \<Rightarrow> session \<times> reply list" where
  "process_city_selection s callback_data =
     (let selected_cities = get_list (cities_to_visit (fsm_data s));
          other = get_list (other_cities (fsm_data s));
          city_name = replace_del (S ''city_'') callback_data
      in if city_name = S ''done'' then
           (if length selected_cities + length other = 0 then
              (s, [Alert ''select_at_least_one_city''])
            else if editing_field (fsm_data s) = Some (S ''cities'') then
              show_review (update_data (\<lambda>d. d\<lparr>editing_field := None\<rparr>) s)
            else (set_state TravelForm_days s, [EditText ''how_many_days'']))
         else if city_name = S ''other'' then
           (set_state TravelForm_other_city s, [EditText ''type_other_city''])
         else
           (let toggled = toggle_city city_name (selected_cities, other)
            in (update_data
                  (\<lambda>d. d\<lparr>cities_to_visit := Some (fst toggled), other_cities := Some (snd toggled)\<rparr>) s,
                [EditMarkup])))"

definition process_other_city_filter :: "session \<Rightarrow> message \<Rightarrow> bool" where
  "process_other_city_filter s m = (fsm_state s = Some TravelForm_other_city)"

definition process_other_city :: "session \<Rightarrow> message \<Rightarrow> session \<times> reply list" where
  "process_other_city s m =
     (case msg_text m of
        None \<Rightarrow> (s, [Raised AttributeError])
      | Some t \<Rightarrow>
          (let city = strip t
           in if length city < 2 then (s, [Answer ''invalid_city''])
              else
                (let other = get_list (other_cities (fsm_data s));
                     other' = (if city \<notin> set other then other @ [city] else other)
                 in (set_state TravelForm_cities_to_visit
                       (update_data (\<lambda>d. d\<lparr>other_cities := Some other'\<rparr>) s),
                     [Answer ''select_cities'']))))"

subsection \<open>Days and people\<close>

definition process_days :: "session \<Rightarrow> pystr \<Rightarrow> session \<times> reply list" where
  "process_days s callback_data =
     (let days_value = replace_del (S ''days_'') callback_data
      in if days_value = S ''other'' then
           (set_state TravelForm_other_days s, [EditText ''enter_number_of_days''])
         else
           (let s1 = update_data (\<lambda>d. d\<lparr>days := Some days_value\<rparr>) s
            in if editing_field (fsm_data s) = Some (S ''days'') then
                 show_review (update_data (\<lambda>d. d\<lparr>editing_field := None\<rparr>) s1)
               else (set_state TravelForm_people s1, [EditText ''how_many_people''])))"

definition process_other_days_filter :: "session \<Rightarrow> message \<Rightarrow> bool" where
  "process_other_days_filter s m = (fsm_state s = Some TravelForm_other_days)"

text \<open>
  The body is one \<^verbatim>\<open>try\<close> with a bare \<^verbatim>\<open>except\<close>: a message without text
  (\<^verbatim>\<open>None.strip()\<close>), a text that \<^verbatim>\<open>int\<close> refuses and a number below the bound all
  end in the \<^verbatim>\<open>except\<close> branch. \<open>entered_int\<close> is \<^verbatim>\<open>int(message.text.strip())\<close>,
  \<open>None\<close> where it raises.
\<close>

definition entered_int :: "(nat \<Rightarrow> nat option) \<Rightarrow> message \<Rightarrow> int option" where
  "entered_int nd m = (case msg_text m of None \<Rightarrow> None | Some t \<Rightarrow> py_int nd (strip t))"

definition process_other_days :: "(nat \<Rightarrow> nat option) \<Rightarrow> session \<Rightarrow> message \<Rightarrow> session \<times> reply list" where
  "process_other_days nd s m =
     (case entered_int nd m of
        None \<Rightarrow> (s, [Answer ''invalid_number''])
      | Some n \<Rightarrow>
          if n < 1 then (s, [Answer ''invalid_number''])
          else
            (let s1 = update_data (\<lambda>d. d\<lparr>days := Some (py_str n)\<rparr>) s
             in if editing_field (fsm_data s1) = Some (S ''days'') then
                  show_review (update_data (\<lambda>d. d\<lparr>editing_field := None\<rparr>) s1)
                else (set_state TravelForm_people s1, [Answer ''how_many_people''])))"

definition process_people :: "session \<Rightarrow> pystr \<Rightarrow> session \<times> reply list" where
  "process_people s callback_data =
     (let people_value = replace_del (S ''people_'') callback_data
      in if people_value = S ''4plus'' then
           (set_state TravelForm_other_people s, [EditText ''enter_number_of_people''])
         else
           (let s1 = update_data (\<lambda>d. d\<lparr>people := Some people_value\<rparr>) s
            in if editing_field (fsm_data s) = Some (S ''people'') then
                 show_review (update_data (\<lambda>d. d\<lparr>editing_field := None\<rparr>) s1)
               else (set_state TravelForm_need_translator s1, [EditText ''need_translator''])))"

definition process_other_people_filter :: "session \<Rightarrow> message \<Rightarrow> bool" where
  "process_other_people_filter s m = (fsm_state s = Some TravelForm_other_people)"

definition process_other_people :: "(nat \<Rightarrow> nat option) \<Rightarrow> session \<Rightarrow> message \<Rightarrow> session \<times> reply list" where
  "process_other_people nd s m =
     (case entered_int nd m of
        None \<Rightarrow> (s, [Answer ''invalid_number_5_or_more''])
      | Some n \<Rightarrow>
          if n < 5 then (s, [Answer ''invalid_number_5_or_more''])
          else
            (let s1 = update_data (\<lambda>d. d\<lparr>people := Some (py_str n)\<rparr>) s
             in if editing_field (fsm_data s1) = Some (S ''people'') then
                  show_review (update_data (\<lambda>d. d\<lparr>editing_field := None\<rparr>) s1)
                else (set_state TravelForm_need_translator s1, [Answer ''need_translator''])))"

subsection \<open>Translator\<close>

definition process_translator :: "session \<Rightarrow> pystr \<Rightarrow> session \<times> reply list" where
  "process_translator s callback_data =
     (let answer = replace_del (S ''translator_'') callback_data;
          is_editing = (editing_field (fsm_data s) = Some (S ''translator''))
      in if answer = S ''yes'' then
           (set_state TravelForm_translator_language
              (update_data (\<lambda>d. d\<lparr>need_translator := Some (S ''Yes'')\<rparr>) s),
            [EditText ''which_language''])
         else
           (let s1 = update_data
                       (\<lambda>d. d\<lparr>need_translator := Some (S ''No''), translator_language := Some []\<rparr>) s
            in if is_editing then show_review (update_data (\<lambda>d. d\<lparr>editing_field := None\<rparr>) s1)
               else show_start_date_calendar s1))"

definition process_language :: "session \<Rightarrow> pystr \<Rightarrow> session \<times> reply list" where
  "process_language s callback_data =
     (let lang = replace_del (S ''lang_'') callback_data
      in if lang = S ''other'' then
           (set_state TravelForm_other_language s, [EditText ''enter_language''])
         else
           (let s1 = update_data (\<lambda>d. d\<lparr>translator_language := Some lang\<rparr>) s
            in if editing_field (fsm_data s1) = Some (S ''translator'') then
                 show_review (update_data (\<lambda>d. d\<lparr>editing_field := None\<rparr>) s1)
               else show_start_date_calendar s1))"

definition process_other_language_filter :: "session \<Rightarrow> message \<Rightarrow> bool" where
  "process_other_language_filter s m = (fsm_state s = Some TravelForm_other_language)"

definition process_other_language :: "session \<Rightarrow> message \<Rightarrow> session \<times> reply list" where
  "process_other_language s m =
     (case msg_text m of
        None \<Rightarrow> (s, [Raised AttributeError])
      | Some t \<Rightarrow>
          (let language = strip t
           in if length language < 1 then (s, [Answer ''invalid_language''])
              else
                (let s1 = update_data (\<lambda>d. d\<lparr>translator_language := Some language\<rparr>) s
                 in if editing_field (fsm_data s1) = Some (S ''translator'') then
                      show_review (update_data (\<lambda>d. d\<lparr>editing_field := None\<rparr>) s1)
                    else show_start_date_calendar s1)))"

section \<open>The calendar\<close>

text \<open>
  A \<^verbatim>\<open>datetime.date\<close> is its year, month and day. \<^verbatim>\<open>datetime(year, month, day)\<close>
  raises \<^verbatim>\<open>ValueError\<close> (here \<open>None\<close>) unless the year is between 1 and 9999 and the
  day exists in the month; dates compare by year, then month, then day.
\<close>

type_synonym date = "int \<times> int \<times> int"

definition is_leap :: "int \<Rightarrow> bool" where
  "is_leap y = (y mod 4 = 0 \<and> (y mod 100 \<noteq> 0 \<or> y mod 400 = 0))"

definition days_in_month :: "int \<Rightarrow> int \<Rightarrow> int" where
  "days_in_month y m =
     (if m = 2 then (if is_leap y then 29 else 28)
      else if m = 4 \<or> m = 6 \<or> m = 9 \<or> m = 11 then 30
      else 31)"

definition datetime :: "int \<Rightarrow> int \<Rightarrow> int \<Rightarrow> date option" where
  "datetime y m d =
     (if 1 \<le> y \<and> y \<le> 9999 \<and> 1 \<le> m \<and> m \<le> 12 \<and> 1 \<le> d \<and> d \<le> days_in_month y m
      then Some (y, m, d) else None)"

fun date_less :: "date \<Rightarrow> date \<Rightarrow> bool" where
  "date_less (y1, m1, d1) (y2, m2, d2) =
     (y1 < y2 \<or> (y1 = y2 \<and> (m1 < m2 \<or> (m1 = m2 \<and> d1 < d2))))"

text \<open>
  What the Python runtime supplies to the calendar: the Unicode digits beyond ASCII,
  \<^verbatim>\<open>calendar.monthcalendar(year, month)\<close> for a month from 1 to 12 (the weeks of the
  month, each a list of day numbers with 0 for the cells outside the month),
  \<^verbatim>\<open>datetime.strptime(s, "%Y-%m-%d")\<close> (\<open>None\<close> where it raises \<^verbatim>\<open>ValueError\<close>), and
  the current date \<^verbatim>\<open>datetime.now().date()\<close>.
\<close>

record runtime =
  unicode_digits :: "nat \<Rightarrow> nat option"
  monthcalendar :: "int \<Rightarrow> int \<Rightarrow> int list list"
  strptime :: "pystr \<Rightarrow> date option"
  today :: date

text \<open>The format \<^verbatim>\<open>{n:02d}\<close>: at least two characters, zeros after the sign.\<close>

definition fmt_02d :: "int \<Rightarrow> pystr" where
  "fmt_02d n =
     (if n < 0 then 45 # str_nat (nat (- n))
      else if n < 10 then 48 # str_nat (nat n)
      else str_nat (nat n))"

text \<open>\<^verbatim>\<open>f"{year}-{month:02d}-{day:02d}"\<close>\<close>

definition date_string :: "int \<Rightarrow> int \<Rightarrow> int \<Rightarrow> pystr" where
  "date_string y m d = py_str y @ S ''-'' @ fmt_02d m @ S ''-'' @ fmt_02d d"

text \<open>
  \<^verbatim>\<open>date.isoformat()\<close>, the form YYYY-MM-DD of a date: the year in four digits, the
  month and the day in two, padded with zeros. The source does not call it; it is the
  form that the stored start date is compared with below.
\<close>

definition zfill :: "nat \<Rightarrow> pystr \<Rightarrow> pystr" where
  "zfill w s = replicate (w - length s) 48 @ s"

fun isoformat :: "date \<Rightarrow> pystr" where
  "isoformat (y, m, d) =
     zfill 4 (str_nat (nat y)) @ S ''-'' @ zfill 2 (str_nat (nat m)) @ S ''-'' @ zfill 2 (str_nat (nat d))"

text \<open>
  A button is represented by its callback data; labels are not modelled. The body of
  the loop over the days of a week: an empty cell and a past day carry
  \<^verbatim>\<open>cal_ignore\<close>, every other day \<^verbatim>\<open>cal_day_\<close> and its date.
\<close>

definition day_button :: "date \<Rightarrow> int \<Rightarrow> int \<Rightarrow> int \<Rightarrow> py_error + pystr" where
  "day_button now_date y m d =
     (if d = 0 then Inr (S ''cal_ignore'')
      else
        (let date_str = date_string y m d
         in case datetime y m d of
              None \<Rightarrow> Inl ValueError
            | Some date_obj \<Rightarrow>
                (let is_past = date_less date_obj now_date
                 in if is_past then Inr (S ''cal_ignore'')
                    else Inr (S ''cal_day_'' @ date_str))))"

text \<open>A loop that adds one button per element and stops at the first exception.\<close>

fun add_buttons :: "('a \<Rightarrow> py_error + pystr) \<Rightarrow> 'a list \<Rightarrow> py_error + pystr list" where
  "add_buttons f [] = Inr []"
| "add_buttons f (x # xs) =
     (case f x of
        Inl e \<Rightarrow> Inl e
      | Inr b \<Rightarrow> (case add_buttons f xs of Inl e \<Rightarrow> Inl e | Inr bs \<Rightarrow> Inr (b # bs)))"

text \<open>The days grid: \<^verbatim>\<open>for week in calendar_month: for day in week: ...\<close>\<close>

definition days_grid :: "date \<Rightarrow> int \<Rightarrow> int \<Rightarrow> int list list \<Rightarrow> py_error + pystr list" where
  "days_grid now_date y m calendar_month = add_buttons (day_button now_date y m) (concat calendar_month)"

text \<open>
  \<^verbatim>\<open>get_calendar_keyboard(year, month, ...)\<close>: seven weekday headers, the days grid,
  the navigation row and the skip button. \<^verbatim>\<open>monthcalendar\<close> raises
  \<^verbatim>\<open>IllegalMonthError\<close> for a month outside 1 to 12; the selected date only changes
  labels.
\<close>

definition get_calendar_keyboard :: "runtime \<Rightarrow> int \<Rightarrow> int \<Rightarrow> py_error + pystr list" where
  "get_calendar_keyboard rt y m =
     (if m < 1 \<or> 12 < m then Inl IllegalMonthError
      else
        (case days_grid (today rt) y m (monthcalendar rt y m) of
           Inl e \<Rightarrow> Inl e
         | Inr cells \<Rightarrow>
             (case datetime y m 1 of
                None \<Rightarrow> Inl ValueError
              | Some first_day \<Rightarrow>
                  Inr (replicate 7 (S ''cal_ignore'') @ cells @
                       [S ''cal_prev_'' @ py_str y @ S ''_'' @ py_str m,
                        S ''cal_ignore'',
                        S ''cal_next_'' @ py_str y @ S ''_'' @ py_str m,
                        S ''cal_skip'']))))"

subsection \<open>The handler of the calendar\<close>

text \<open>The month shown after a navigation button, wrapping at the ends of the year.\<close>

definition navigate :: "bool \<Rightarrow> int \<Rightarrow> int \<Rightarrow> int \<times> int" where
  "navigate prev y m =
     (if prev then (if m - 1 < 1 then (y - 1, 12) else (y, m - 1))
      else (if m + 1 > 12 then (y + 1, 1) else (y, m + 1)))"

definition process_date_calendar :: "runtime \<Rightarrow> session \<Rightarrow> pystr \<Rightarrow> session \<times> reply list" where
  "process_date_calendar rt s data_str =
     (if data_str = S ''cal_ignore'' then (s, [])
      else if startswith data_str (S ''cal_prev_'') \<or> startswith data_str (S ''cal_next_'') then
        (let parts = split_on 95 data_str
         in case item parts 2 of
              None \<Rightarrow> (s, [Raised IndexError])
            | Some part2 \<Rightarrow>
                (case py_int (unicode_digits rt) part2 of
                   None \<Rightarrow> (s, [Raised ValueError])
                 | Some y \<Rightarrow>
                     (case item parts 3 of
                        None \<Rightarrow> (s, [Raised IndexError])
                      | Some part3 \<Rightarrow>
                          (case py_int (unicode_digits rt) part3 of
                             None \<Rightarrow> (s, [Raised ValueError])
                           | Some m \<Rightarrow>
                               (let shown = navigate (contains data_str (S ''prev'')) y m
                                in case get_calendar_keyboard rt (fst shown) (snd shown) of
                                     Inl e \<Rightarrow> (s, [Raised e])
                                   | Inr keyboard \<Rightarrow> (s, [EditMarkup]))))))
      else if startswith data_str (S ''cal_day_'') then
        (case item (split_on 95 data_str) 2 of
           None \<Rightarrow> (s, [Raised IndexError])
         | Some date_str \<Rightarrow>
             (let s1 = update_data (\<lambda>d. d\<lparr>start_date := Some date_str\<rparr>) s
              in case strptime rt date_str of
                   None \<Rightarrow> (s1, [Raised ValueError])
                 | Some parsed \<Rightarrow> (s1, [EditText ''date_selected''])))
      else if data_str = S ''cal_skip'' then
        show_review (update_data (\<lambda>d. d\<lparr>start_date := Some []\<rparr>) s)
      else if startswith data_str (S ''cal_confirm_'') then
        (case item (split_on 95 data_str) 2 of
           None \<Rightarrow> (s, [Raised IndexError])
         | Some date_str \<Rightarrow>
             show_review (update_data (\<lambda>d. d\<lparr>start_date := Some date_str\<rparr>) s))
      else if data_str = S ''cal_change'' then (s, [EditText ''select_travel_date''])
      else (s, []))"

section \<open>Review and edit mode\<close>

definition process_confirm_filter :: "session \<Rightarrow> pystr \<Rightarrow> bool" where
  "process_confirm_filter s callback_data =
     (fsm_state s = Some TravelForm_review \<and> callback_data = S ''review_confirm'')"

definition process_confirm :: "session \<Rightarrow> pystr \<Rightarrow> session \<times> reply list" where
  "process_confirm s callback_data =
     (let all_cities = get_list (cities_to_visit (fsm_data s)) @ get_list (other_cities (fsm_data s))
      in (set_state TravelForm_referral_source
            (update_data (\<lambda>d. d\<lparr>cities_to_visit := Some all_cities\<rparr>) s),
          [EditText ''referral_question'']))"

definition process_edit_choice_filter :: "session \<Rightarrow> pystr \<Rightarrow> bool" where
  "process_edit_choice_filter s callback_data =
     (fsm_state s = Some TravelForm_review \<and> callback_data = S ''review_edit'')"

definition process_edit_choice :: "session \<Rightarrow> pystr \<Rightarrow> session \<times> reply list" where
  "process_edit_choice s callback_data = (s, [EditText ''edit_field''])"

text \<open>
  \<^verbatim>\<open>process_edit_field\<close>. The marker is stored first. \<^verbatim>\<open>message.edit_text\<close> takes
  an inline keyboard only: aiogram validates its arguments when the call is built. The
  branches for the phone and for the current city pass \<^verbatim>\<open>get_phone_keyboard\<close> and
  \<^verbatim>\<open>get_city_keyboard\<close>, which \<^verbatim>\<open>keyboards/travel_keyboards.py\<close> builds with
  \<^verbatim>\<open>ReplyKeyboardBuilder\<close>, so there the call raises before \<^verbatim>\<open>state.set_state\<close> is
  reached and the step stays what it was. The other branches pass inline keyboards.
\<close>

definition process_edit_field :: "session \<Rightarrow> pystr \<Rightarrow> session \<times> reply list" where
  "process_edit_field s callback_data =
     (let field = replace_del (S ''edit_'') callback_data;
          s1 = update_data (\<lambda>d. d\<lparr>editing_field := Some field\<rparr>) s
      in if field = S ''phone'' then (s1, [Raised ValidationError])
         else if field = S ''current_city'' then (s1, [Raised ValidationError])
         else if field = S ''cities'' then
           (set_state TravelForm_cities_to_visit s1, [EditText ''select_cities''])
         else if field = S ''days'' then (set_state TravelForm_days s1, [EditText ''how_many_days''])
         else if field = S ''people'' then
           (set_state TravelForm_people s1, [EditText ''how_many_people''])
         else if field = S ''translator'' then
           (set_state TravelForm_need_translator s1, [EditText ''need_translator''])
         else if field = S ''dates'' then
           show_start_date_calendar (update_data (\<lambda>d. d\<lparr>editing_field := None\<rparr>) s1)
         else (s1, []))"

section \<open>The files\<close>

text \<open>
  The values \<^verbatim>\<open>json.load\<close> returns and \<^verbatim>\<open>json.dump\<close> writes. A dictionary keeps its
  keys in the order of insertion; \<open>JNull\<close> is \<^verbatim>\<open>None\<close>.
\<close>

typedecl pyfloat

datatype json =
    JNull
  | JBool bool
  | JInt int
  | JFloat pyfloat
  | JStr pystr
  | JList "json list"
  | JDict "(pystr \<times> json) list"

text \<open>
  What a reader finds at the path of a JSON file: no file; a file that cannot be opened
  or read (\<^verbatim>\<open>OSError\<close>); bytes that are not UTF-8 (\<^verbatim>\<open>UnicodeDecodeError\<close>, which
  is a \<^verbatim>\<open>ValueError\<close> but not a \<^verbatim>\<open>json.JSONDecodeError\<close>); text that is not JSON
  (\<^verbatim>\<open>json.JSONDecodeError\<close>); JSON nested deeper than the interpreter's recursion
  limit (\<^verbatim>\<open>RecursionError\<close>); or a JSON value. Writing a file is taken to succeed.
\<close>

datatype disk_file = Missing | Unreadable | BadEncoding | NotJson | TooDeep | Json json

text \<open>
  The three files under \<^verbatim>\<open>data/\<close>. The submission log \<^verbatim>\<open>users.csv\<close> is its rows,
  each the list of its cells (\<open>None\<close>: the file does not exist).
\<close>

record files =
  csv_file :: "pystr list list option"
  pending_file :: disk_file
  lang_file :: disk_file

text \<open>
  \<^verbatim>\<open>load_pending_requests\<close> catches \<^verbatim>\<open>json.JSONDecodeError\<close> and \<^verbatim>\<open>OSError\<close>;
  the two other errors of reading leave it.
\<close>

definition load_pending_requests :: "disk_file \<Rightarrow> py_error + json list" where
  "load_pending_requests f =
     (case f of
        Missing \<Rightarrow> Inr []
      | Unreadable \<Rightarrow> Inr []
      | BadEncoding \<Rightarrow> Inl UnicodeDecodeError
      | NotJson \<Rightarrow> Inr []
      | TooDeep \<Rightarrow> Inl RecursionError
      | Json v \<Rightarrow> (case v of JList xs \<Rightarrow> Inr xs | _ \<Rightarrow> Inr []))"

definition save_pending_requests :: "json list \<Rightarrow> disk_file" where
  "save_pending_requests requests = Json (JList requests)"

text \<open>
  \<^verbatim>\<open>get_user_language\<close>. The file is opened outside the \<^verbatim>\<open>try\<close>, which catches
  \<^verbatim>\<open>json.JSONDecodeError\<close> only; \<^verbatim>\<open>.get\<close> exists on a dictionary alone.
\<close>

definition get_user_language :: "disk_file \<Rightarrow> int \<Rightarrow> py_error + json" where
  "get_user_language f uid =
     (let user_id_str = py_str uid
      in case f of
           Missing \<Rightarrow> Inr JNull
         | Unreadable \<Rightarrow> Inl OSError
         | BadEncoding \<Rightarrow> Inl UnicodeDecodeError
         | NotJson \<Rightarrow> Inr JNull
         | TooDeep \<Rightarrow> Inl RecursionError
         | Json v \<Rightarrow>
             (case v of
                JDict user_languages \<Rightarrow>
                  (case map_of user_languages user_id_str of
                     None \<Rightarrow> Inr JNull
                   | Some l \<Rightarrow> Inr l)
              | _ \<Rightarrow> Inl AttributeError))"

subsection \<open>Pending requests\<close>

text \<open>
  \<^verbatim>\<open>extract_admin_payload\<close>: the keys of \<^verbatim>\<open>REQUEST_PAYLOAD_KEYS\<close> that the data
  holds, in the order of that list.
\<close>

definition payload_item :: "pystr \<Rightarrow> json option \<Rightarrow> (pystr \<times> json) list" where
  "payload_item k v = (case v of None \<Rightarrow> [] | Some x \<Rightarrow> [(k, x)])"

definition json_strs :: "pystr list \<Rightarrow> json" where
  "json_strs xs = JList (map JStr xs)"

definition extract_admin_payload :: "form_data \<Rightarrow> (pystr \<times> json) list" where
  "extract_admin_payload d =
     payload_item (S ''user_id'') (map_option JInt (user_id d)) @
     payload_item (S ''first_name'') (map_option JStr (first_name d)) @
     payload_item (S ''full_name'') (map_option JStr (full_name d)) @
     payload_item (S ''phone'') (map_option JStr (phone d)) @
     payload_item (S ''current_city'') (map_option JStr (current_city d)) @
     payload_item (S ''cities_to_visit'') (map_option json_strs (cities_to_visit d)) @
     payload_item (S ''other_cities'') (map_option json_strs (other_cities d)) @
     payload_item (S ''days'') (map_option JStr (days d)) @
     payload_item (S ''people'') (map_option JStr (people d)) @
     payload_item (S ''need_translator'') (map_option JStr (need_translator d)) @
     payload_item (S ''translator_language'') (map_option JStr (translator_language d)) @
     payload_item (S ''start_date'') (map_option JStr (start_date d)) @
     payload_item (S ''referral_source'') (map_option JStr (referral_source d)) @
     payload_item (S ''lang_code'') (map_option JStr (lang_code d))"

text \<open>
  \<^verbatim>\<open>add_pending_request\<close>; \<open>uuid\<close> is \<^verbatim>\<open>str(uuid4())\<close> and \<open>now\<close> is
  \<^verbatim>\<open>datetime.now().isoformat()\<close> at the call. The new entry goes to the front.
\<close>

definition new_entry :: "pystr \<Rightarrow> pystr \<Rightarrow> (pystr \<times> json) list \<Rightarrow> json" where
  "new_entry uuid now payload =
     JDict [(S ''id'', JStr uuid), (S ''status'', JStr (S ''new'')),
            (S ''created_at'', JStr now), (S ''payload'', JDict payload)]"

definition add_pending_request ::
  "pystr \<Rightarrow> pystr \<Rightarrow> (pystr \<times> json) list \<Rightarrow> disk_file \<Rightarrow> py_error + disk_file" where
  "add_pending_request uuid now payload f =
     (let entry = new_entry uuid now payload
      in case load_pending_requests f of
           Inl e \<Rightarrow> Inl e
         | Inr requests \<Rightarrow> Inr (save_pending_requests (entry # requests)))"

text \<open>
  The loop of \<^verbatim>\<open>mark_request_processed\<close>: the first entry whose \<^verbatim>\<open>id\<close> is the
  request's is updated in place, and the loop ends. \<open>Inr None\<close>: no entry matched;
  \<open>Inl\<close>: an entry that is not a dictionary has no \<^verbatim>\<open>.get\<close>.
\<close>

fun mark_entry :: "pystr \<Rightarrow> int \<Rightarrow> pystr \<Rightarrow> json list \<Rightarrow> py_error + json list option" where
  "mark_entry request_id admin_id now [] = Inr None"
| "mark_entry request_id admin_id now (entry # rest) =
     (case entry of
        JDict kvs \<Rightarrow>
          if map_of kvs (S ''id'') = Some (JStr request_id) then
            Inr (Some (JDict (AList.update (S ''processed_at'') (JStr now)
                               (AList.update (S ''processed_by'') (JInt admin_id)
                                 (AList.update (S ''status'') (JStr (S ''processed'')) kvs))) # rest))
          else
            (case mark_entry request_id admin_id now rest of
               Inl e \<Rightarrow> Inl e
             | Inr None \<Rightarrow> Inr None
             | Inr (Some rest') \<Rightarrow> Inr (Some (entry # rest')))
      | _ \<Rightarrow> Inl AttributeError)"

text \<open>
  \<^verbatim>\<open>mark_request_processed\<close> returns \<^verbatim>\<open>updated\<close> and, when it is true, has
  written the list back.
\<close>

definition mark_request_processed :: "pystr \<Rightarrow> disk_file \<Rightarrow> pystr \<Rightarrow> int \<Rightarrow> py_error + (bool \<times> disk_file)" where
  "mark_request_processed now f request_id admin_id =
     (case load_pending_requests f of
        Inl e \<Rightarrow> Inl e
      | Inr loaded \<Rightarrow>
          (case mark_entry request_id admin_id now loaded of
             Inl e \<Rightarrow> Inl e
           | Inr None \<Rightarrow> Inr (False, f)
           | Inr (Some requests) \<Rightarrow> Inr (True, save_pending_requests requests)))"

text \<open>
  The alert of \<^verbatim>\<open>admin_mark_request_done\<close> for an administrator, from the result of
  \<^verbatim>\<open>mark_request_processed\<close>.
\<close>

definition admin_mark_request_done_alert :: "bool \<Rightarrow> pystr" where
  "admin_mark_request_done_alert updated =
     (if updated then S ''Request marked as processed '' @ [9989]
      else S ''Request already handled or missing.'')"

subsection \<open>The submission log\<close>

definition fieldnames :: "pystr list" where
  "fieldnames =
     [S ''timestamp'', S ''full_name'', S ''phone'', S ''current_city'', S ''cities_to_visit'',
      S ''days'', S ''people'', S ''need_translator'', S ''translator_language'',
      S ''start_date'', S ''referral_source'']"

text \<open>\<^verbatim>\<open>data.get(key, '')\<close>\<close>

definition get_str :: "pystr option \<Rightarrow> pystr" where
  "get_str v = (case v of None \<Rightarrow> [] | Some x \<Rightarrow> x)"

definition csv_row :: "pystr \<Rightarrow> form_data \<Rightarrow> pystr list" where
  "csv_row now d =
     [now, get_str (full_name d), get_str (phone d), get_str (current_city d),
      join (S '', '') (get_list (cities_to_visit d)), get_str (days d), get_str (people d),
      get_str (need_translator d), get_str (translator_language d), get_str (start_date d),
      get_str (referral_source d)]"

text \<open>
  \<^verbatim>\<open>save_to_csv\<close>: the file is opened for appending; the header is written first
  when the file did not exist.
\<close>

definition save_to_csv :: "pystr \<Rightarrow> form_data \<Rightarrow> pystr list list option \<Rightarrow> pystr list list option" where
  "save_to_csv now d f =
     (case f of
        None \<Rightarrow> Some [fieldnames, csv_row now d]
      | Some rows \<Rightarrow> Some (rows @ [csv_row now d]))"

section \<open>Referral source and submission\<close>

text \<open>
  \<^verbatim>\<open>finalize_submission\<close>. \<open>now_csv\<close> and \<open>now_entry\<close> are the two readings of the
  clock (in \<^verbatim>\<open>save_to_csv\<close> and in \<^verbatim>\<open>add_pending_request\<close>), \<open>uuid\<close> the new
  identifier. \<open>from_callback\<close> says that the caller passed a \<^verbatim>\<open>CallbackQuery\<close>. The
  notification of the administrators goes to the chat transport only and leaves no
  trace here: \<^verbatim>\<open>asyncio.gather(..., return_exceptions=True)\<close> keeps its failures.
  When reading the pending requests raises, the exception leaves the function after the
  row of the log has been written and before the conversation is cleared.
\<close>

record submission =
  now_csv :: pystr
  now_entry :: pystr
  uuid :: pystr

definition finalize_submission ::
  "submission \<Rightarrow> bool \<Rightarrow> session \<Rightarrow> files \<Rightarrow> (session \<times> files) \<times> reply list" where
  "finalize_submission sub from_callback s fs =
     (let d = fsm_data s;
          fs1 = fs\<lparr>csv_file := save_to_csv (now_csv sub) d (csv_file fs)\<rparr>;
          admin_payload = extract_admin_payload d
      in case add_pending_request (uuid sub) (now_entry sub) admin_payload (pending_file fs1) of
           Inl e \<Rightarrow> ((s, fs1), [Raised e])
         | Inr written \<Rightarrow>
             ((clear, fs1\<lparr>pending_file := written\<rparr>),
              (if from_callback then [EditText ''referral_saved'', Answer ''thank_you'']
               else [Answer ''referral_saved'', Answer ''thank_you''])))"



definition process_other_referral ::
  "submission \<Rightarrow> session \<Rightarrow> files \<Rightarrow> message \<Rightarrow> (session \<times> files) \<times> reply list" where
  "process_other_referral sub s fs m =
     (let response = strip (get_str (msg_text m))
      in if response = [] then ((s, fs), [Answer ''enter_other_referral''])
         else finalize_submission sub False
                (update_data (\<lambda>d. d\<lparr>referral_source := Some response\<rparr>) s) fs)"

section \<open>The handlers as registered\<close>

text \<open>
  Each handler behind the filters of its decorator, and behind the handlers registered
  ahead of it that can take the same event.

  The handlers of the commands \<^verbatim>\<open>/start\<close>, \<^verbatim>\<open>/help\<close>, \<^verbatim>\<open>/support\<close>,
  \<^verbatim>\<open>/language\<close> and \<^verbatim>\<open>/admin\<close> come first and have no state filter: a message
  that one of their \<^verbatim>\<open>Command\<close> filters accepts goes to them in every step and never
  reaches a handler below. The \<^verbatim>\<open>Command\<close> filter is aiogram's (it reads the text or
  the caption and compares a mention with the bot's user name), so
  \<open>is_command\<close> is a parameter: whether one of the five filters accepts the message.

  The three handlers of the administrators' buttons come next; they take the callback
  data \<^verbatim>\<open>admin_panel_refresh\<close> and data that start with \<^verbatim>\<open>admin_req_\<close>, which
  none of the prefixes below can start with.
\<close>

definition message_filter ::
  "(message \<Rightarrow> bool) \<Rightarrow> (session \<Rightarrow> message \<Rightarrow> bool) \<Rightarrow> session \<Rightarrow> message \<Rightarrow> bool" where
  "message_filter is_command accepts s m = (\<not> is_command m \<and> accepts s m)"

definition on_phone ::
  "(message \<Rightarrow> bool) \<Rightarrow> (nat \<Rightarrow> nat option) \<Rightarrow> session \<Rightarrow> message \<Rightarrow> (session \<times> reply list) option" where
  "on_phone is_command nd = handle (message_filter is_command process_phone_filter) (process_phone nd)"

definition on_current_city ::
  "(message \<Rightarrow> bool) \<Rightarrow> session \<Rightarrow> message \<Rightarrow> (session \<times> reply list) option" where
  "on_current_city is_command = handle (message_filter is_command process_current_city_filter) process_current_city"

definition on_city_selection :: "session \<Rightarrow> pystr \<Rightarrow> (session \<times> reply list) option" where
  "on_city_selection =
     handle (callback_filter TravelForm_cities_to_visit (S ''city_'')) process_city_selection"

definition on_other_city ::
  "(message \<Rightarrow> bool) \<Rightarrow> session \<Rightarrow> message \<Rightarrow> (session \<times> reply list) option" where
  "on_other_city is_command = handle (message_filter is_command process_other_city_filter) process_other_city"

definition on_days :: "session \<Rightarrow> pystr \<Rightarrow> (session \<times> reply list) option" where
  "on_days = handle (callback_filter TravelForm_days (S ''days_'')) process_days"

definition on_other_days ::
  "(message \<Rightarrow> bool) \<Rightarrow> (nat \<Rightarrow> nat option) \<Rightarrow> session \<Rightarrow> message \<Rightarrow> (session \<times> reply list) option" where
  "on_other_days is_command nd = handle (message_filter is_command process_other_days_filter) (process_other_days nd)"

definition on_people :: "session \<Rightarrow> pystr \<Rightarrow> (session \<times> reply list) option" where
  "on_people = handle (callback_filter TravelForm_people (S ''people_'')) process_people"

definition on_other_people ::
  "(message \<Rightarrow> bool) \<Rightarrow> (nat \<Rightarrow> nat option) \<Rightarrow> session \<Rightarrow> message \<Rightarrow> (session \<times> reply list) option" where
  "on_other_people is_command nd = handle (message_filter is_command process_other_people_filter) (process_other_people nd)"

definition on_translator :: "session \<Rightarrow> pystr \<Rightarrow> (session \<times> reply list) option" where
  "on_translator =
     handle (callback_filter TravelForm_need_translator (S ''translator_'')) process_translator"

definition on_language :: "session \<Rightarrow> pystr \<Rightarrow> (session \<times> reply list) option" where
  "on_language =
     handle (callback_filter TravelForm_translator_language (S ''lang_'')) process_language"

definition on_other_language ::
  "(message \<Rightarrow> bool) \<Rightarrow> session \<Rightarrow> message \<Rightarrow> (session \<times> reply list) option" where
  "on_other_language is_command = handle (message_filter is_command process_other_language_filter) process_other_language"

definition on_date_calendar :: "runtime \<Rightarrow> session \<Rightarrow> pystr \<Rightarrow> (session \<times> reply list) option" where
  "on_date_calendar rt =
     handle (callback_filter TravelForm_start_date (S ''cal_'')) (process_date_calendar rt)"

definition on_confirm :: "session \<Rightarrow> pystr \<Rightarrow> (session \<times> reply list) option" where
  "on_confirm = handle process_confirm_filter process_confirm"

definition on_edit_choice :: "session \<Rightarrow> pystr \<Rightarrow> (session \<times> reply list) option" where
  "on_edit_choice = handle process_edit_choice_filter process_edit_choice"

definition on_edit_field :: "session \<Rightarrow> pystr \<Rightarrow> (session \<times> reply list) option" where
  "on_edit_field = handle (callback_filter TravelForm_review (S ''edit_'')) process_edit_field"

text \<open>
  The next event of a conversation: the handler \<open>h\<close> gets the session the handler
  before it left (also when that one ended with an exception).
\<close>

definition next_event ::
  "(session \<times> reply list) option \<Rightarrow> (session \<Rightarrow> (session \<times> reply list) option) \<Rightarrow>
   (session \<times> reply list) option" where
  "next_event r h = (case r of None \<Rightarrow> None | Some res \<Rightarrow> h (fst res))"

text \<open>
  The events of the two steps in which the cities are chosen. A button of the cities
  keyboard goes to \<^verbatim>\<open>process_city_selection\<close>, a message to
  \<^verbatim>\<open>process_other_city\<close>. In these two steps an event that neither filter accepts
  changes nothing in the session: such a message lands in \<^verbatim>\<open>handle_unexpected\<close>, such
  a button in a handler of the administrators or in none. \<open>None\<close> stands for what is
  not described here: a command, and any event in another step.
\<close>

datatype event = Callback pystr | Message message

definition city_event :: "(message \<Rightarrow> bool) \<Rightarrow> session \<Rightarrow> event \<Rightarrow> session option" where
  "city_event is_command s e =
     (if fsm_state s \<noteq> Some TravelForm_cities_to_visit \<and> fsm_state s \<noteq> Some TravelForm_other_city
      then None
      else
        (case e of
           Callback d \<Rightarrow> Some (case on_city_selection s d of None \<Rightarrow> s | Some r \<Rightarrow> fst r)
         | Message m \<Rightarrow>
             if is_command m then None
             else Some (case on_other_city is_command s m of None \<Rightarrow> s | Some r \<Rightarrow> fst r)))"

fun city_events :: "(message \<Rightarrow> bool) \<Rightarrow> session \<Rightarrow> event list \<Rightarrow> session option" where
  "city_events is_command s [] = Some s"
| "city_events is_command s (e # es) =
     (case city_event is_command s e of
        None \<Rightarrow> None
      | Some s1 \<Rightarrow> city_events is_command s1 es)"

text \<open>The review step with the data \<open>d\<close> and no editing marker.\<close>

definition review_with :: "form_data \<Rightarrow> session" where
  "review_with d = \<lparr>fsm_state = Some TravelForm_review, fsm_data = d\<lparr>editing_field := None\<rparr>\<rparr>"

text \<open>
  Edit mode for the cities, relative to the data \<open>D\<close> of the review step: the session
  is in one of the two city steps, the editing marker is \<^verbatim>\<open>cities\<close>, and its data are
  \<open>D\<close> but for the two city lists and the marker.
\<close>

definition editing_cities :: "form_data \<Rightarrow> session \<Rightarrow> bool" where
  "editing_cities D s =
     ((fsm_state s = Some TravelForm_cities_to_visit \<or> fsm_state s = Some TravelForm_other_city) \<and>
      editing_field (fsm_data s) = Some (S ''cities'') \<and>
      (fsm_data s)\<lparr>cities_to_visit := None, other_cities := None, editing_field := None\<rparr> =
        D\<lparr>cities_to_visit := None, other_cities := None, editing_field := None\<rparr>)"

section \<open>A sample conversation\<close>

text \<open>
  A session as it stands at the review step, for the concrete instances below: Dubai
  chosen on the keyboard, Paris typed in.
\<close>

definition sample_data :: form_data where
  "sample_data =
     \<lparr>user_id = Some 42, first_name = Some (S ''Ali''), full_name = Some (S ''Ali Khan''),
      lang_code = Some (S ''en''), change_language_only = Some False,
      phone = Some (S ''+79001234567''), current_city = Some (S ''Kazan''),
      cities_to_visit = Some [[1044, 1091, 1073, 1072, 1081]], other_cities = Some [S ''Paris''],
      days = Some (S ''7''), people = Some (S ''2''), need_translator = Some (S ''No''),
      translator_language = Some [], start_date = Some (S ''2026-12-01''),
      referral_source = None, editing_field = None\<rparr>"

definition sample_session :: "TravelForm \<Rightarrow> session" where
  "sample_session st = \<lparr>fsm_state = Some st, fsm_data = sample_data\<rparr>"

definition text_message :: "pystr \<Rightarrow> message" where
  "text_message t =
     \<lparr>msg_text = Some t, msg_caption = None, msg_contact = None, msg_location = None\<rparr>"

text \<open>
  A stand-in for the five \<^verbatim>\<open>Command\<close> filters in the concrete instances: every text
  or caption that starts with a slash counts as a command.
\<close>

definition slash_command :: "message \<Rightarrow> bool" where
  "slash_command m =
     (case (if msg_text m \<noteq> None then msg_text m else msg_caption m) of
        None \<Rightarrow> False
      | Some t \<Rightarrow> startswith t (S ''/''))"


text \<open>A pending request that administrator 7 has already marked.\<close>

definition processed_entry :: json where
  "processed_entry =
     JDict [(S ''id'', JStr (S ''r1'')), (S ''status'', JStr (S ''processed'')),
            (S ''created_at'', JStr (S ''2026-11-01T10:00:00'')),
            (S ''payload'', JDict [(S ''user_id'', JInt 42)]),
            (S ''processed_by'', JInt 7),
            (S ''processed_at'', JStr (S ''2026-11-02T09:00:00''))]"




text \<open>
  The calendar on 3 November 2026: the weeks of that month as
  \<^verbatim>\<open>calendar.monthcalendar(2026, 11)\<close> gives them, Monday first.
\<close>

definition november_2026 :: "int list list" where
  "november_2026 =
     [[0, 0, 0, 0, 0, 0, 1], [2, 3, 4, 5, 6, 7, 8], [9, 10, 11, 12, 13, 14, 15],
      [16, 17, 18, 19, 20, 21, 22], [23, 24, 25, 26, 27, 28, 29], [30, 0, 0, 0, 0, 0, 0]]"

definition sample_runtime :: runtime where
  "sample_runtime =
     \<lparr>unicode_digits = (\<lambda>c. None),
      monthcalendar = (\<lambda>y m. november_2026),
      strptime = (\<lambda>t. if t = S ''2026-11-15'' then Some (2026, 11, 15) else None),
      today = (2026, 11, 3)\<rparr>"

section \<open>Properties of phone normalisation\<close>

lemma re_sub_nondigit_filter: "re_sub_nondigit nd p = filter (isdecimal nd) p"
  by (induction p) simp_all

lemma filter_digits_empty: "(filter (isdecimal nd) p = []) = (\<forall>c \<in> set p. \<not> isdecimal nd c)"
  by (simp add: filter_empty_conv)

text \<open>
  C2. For every phone input that contains at least one digit character, the
  normalisation returns exactly the character \<^verbatim>\<open>+\<close> followed by the digits of the
  input in their original order, and nothing else.
\<close>

theorem format_phone_number_digits:
  assumes "\<exists>c \<in> set p. isdecimal nd c"
  shows "format_phone_number nd (Some p) = 43 # filter (isdecimal nd) p"
proof -
  from assms have ne: "filter (isdecimal nd) p \<noteq> []"
    by (simp add: filter_digits_empty)
  from assms have "p \<noteq> []"
    by auto
  with ne show ?thesis
    by (simp add: format_phone_number_def re_sub_nondigit_filter)
qed

theorem format_phone_number_digits_witness:
  "(\<exists>c \<in> set (S ''+7 (900) 123-45-67''). isdecimal (\<lambda>c. None) c) \<and>
   format_phone_number (\<lambda>c. None) (Some (S ''+7 (900) 123-45-67'')) = S ''+79001234567''"
proof -
  have digit: "\<exists>c \<in> set (S ''+7 (900) 123-45-67''). isdecimal (\<lambda>c. None) c"
    by (simp add: isdecimal_def decimal_def)
  from format_phone_number_digits [OF digit] digit show ?thesis
    by (simp add: isdecimal_def decimal_def)
qed

text \<open>
  C10. For an input that is \<^verbatim>\<open>None\<close> or that contains no digit character the
  normalisation returns the empty string, never a bare \<^verbatim>\<open>+\<close>; hence every
  non-empty normalised value is \<^verbatim>\<open>+\<close> followed by at least one digit (and by
  digits only).
\<close>

theorem format_phone_number_empty_or_plus_digits:
  "((inp = None \<or> (\<exists>p. inp = Some p \<and> (\<forall>c \<in> set p. \<not> isdecimal nd c)))
      \<longrightarrow> format_phone_number nd inp = []) \<and>
   (format_phone_number nd inp \<noteq> []
      \<longrightarrow> (\<exists>d ds. format_phone_number nd inp = 43 # d # ds \<and>
                   isdecimal nd d \<and> (\<forall>x \<in> set ds. isdecimal nd x)))"
proof (cases inp)
  case None
  then show ?thesis
    by (simp add: format_phone_number_def)
next
  case (Some p)
  show ?thesis
  proof (cases "filter (isdecimal nd) p")
    case Nil
    with Some show ?thesis
      by (simp add: format_phone_number_def re_sub_nondigit_filter)
  next
    case (Cons d ds)
    then have "d \<in> set (filter (isdecimal nd) p)" and "set ds \<subseteq> set (filter (isdecimal nd) p)"
      by auto
    then have "isdecimal nd d" and "\<forall>x \<in> set ds. isdecimal nd x"
      by auto
    moreover from Cons have "\<exists>c \<in> set p. isdecimal nd c"
      by (metis filter_digits_empty list.distinct(1))
    moreover from Cons have "p \<noteq> []"
      by auto
    ultimately show ?thesis
      using Some Cons by (auto simp: format_phone_number_def re_sub_nondigit_filter)
  qed
qed

theorem format_phone_number_empty_or_plus_digits_witness:
  "format_phone_number (\<lambda>c. None) None = [] \<and>
   format_phone_number (\<lambda>c. None) (Some (S ''call me'')) = [] \<and>
   format_phone_number (\<lambda>c. None) (Some (S ''8 (900) 1'')) \<noteq> [] \<and>
   (\<exists>d ds. format_phone_number (\<lambda>c. None) (Some (S ''8 (900) 1'')) = 43 # d # ds \<and>
            isdecimal (\<lambda>c. None) d \<and> list_all (isdecimal (\<lambda>c. None)) ds)"
proof -
  have none: "format_phone_number (\<lambda>c. None) None = []"
    using format_phone_number_empty_or_plus_digits [of None "\<lambda>c. None"] by simp
  have nodigit: "\<forall>c \<in> set (S ''call me''). \<not> isdecimal (\<lambda>c. None) c"
    by (simp add: isdecimal_def decimal_def)
  have letters: "format_phone_number (\<lambda>c. None) (Some (S ''call me'')) = []"
    using format_phone_number_empty_or_plus_digits [of "Some (S ''call me'')" "\<lambda>c. None"] nodigit
    by simp
  have ne: "format_phone_number (\<lambda>c. None) (Some (S ''8 (900) 1'')) \<noteq> []"
    by (simp add: format_phone_number_def isdecimal_def decimal_def)
  have shape: "\<exists>d ds. format_phone_number (\<lambda>c. None) (Some (S ''8 (900) 1'')) = 43 # d # ds \<and>
            isdecimal (\<lambda>c. None) d \<and> list_all (isdecimal (\<lambda>c. None)) ds"
    using format_phone_number_empty_or_plus_digits [of "Some (S ''8 (900) 1'')" "\<lambda>c. None"] ne
    by (simp add: list_all_iff)
  from none letters ne shape show ?thesis
    by blast
qed

section \<open>Properties of the city selection\<close>

lemma toggle_city_absent:
  assumes "c \<notin> set sel" and "c \<notin> set oth"
  shows "toggle_city c (sel, oth) = (if c \<in> set known_cities then (sel @ [c], oth) else (sel, oth @ [c]))"
  using assms by (simp add: toggle_city_def)

lemma remove1_snoc: "c \<notin> set xs \<Longrightarrow> remove1 c (xs @ [c]) = xs"
  by (simp add: remove1_append)

lemma toggle_city_twice:
  assumes "c \<notin> set sel" and "c \<notin> set oth"
  shows "toggle_city c (toggle_city c (sel, oth)) = (sel, oth)"
  using assms by (simp add: toggle_city_def remove1_snoc)

lemma process_city_selection_toggle:
  assumes "replace_del (S ''city_'') callback_data = city_name"
    and "city_name \<noteq> S ''done''" and "city_name \<noteq> S ''other''"
  shows "process_city_selection s callback_data =
     (s\<lparr>fsm_data := (fsm_data s)
          \<lparr>cities_to_visit :=
             Some (fst (toggle_city city_name
                     (get_list (cities_to_visit (fsm_data s)), get_list (other_cities (fsm_data s))))),
           other_cities :=
             Some (snd (toggle_city city_name
                     (get_list (cities_to_visit (fsm_data s)), get_list (other_cities (fsm_data s)))))\<rparr>\<rparr>,
      [EditMarkup])"
  using assms by (simp add: process_city_selection_def Let_def update_data_def)

text \<open>
  C4. A toggle event of the cities-to-visit step for a city that is in neither list
  puts it into exactly one of the two lists (at the end of the selected cities when it
  is one of the eight destinations, of the other cities otherwise); a second toggle of
  the same city gives back both lists as they were, and the step stays the same.
\<close>

theorem city_toggle_twice_restores:
  assumes step: "fsm_state s = Some TravelForm_cities_to_visit"
    and prefix: "startswith callback_data (S ''city_'')"
    and name: "replace_del (S ''city_'') callback_data = city_name"
    and toggle: "city_name \<noteq> S ''done'' \<and> city_name \<noteq> S ''other''"
    and absent: "city_name \<notin> set (get_list (cities_to_visit (fsm_data s))) \<and>
                 city_name \<notin> set (get_list (other_cities (fsm_data s)))"
  shows "\<exists>s1 s2.
           on_city_selection s callback_data = Some (s1, [EditMarkup]) \<and>
           on_city_selection s1 callback_data = Some (s2, [EditMarkup]) \<and>
           ((city_name \<in> set (get_list (cities_to_visit (fsm_data s1)))) \<noteq>
            (city_name \<in> set (get_list (other_cities (fsm_data s1))))) \<and>
           (get_list (cities_to_visit (fsm_data s1)), get_list (other_cities (fsm_data s1))) =
             (if city_name \<in> set known_cities
              then (get_list (cities_to_visit (fsm_data s)) @ [city_name], get_list (other_cities (fsm_data s)))
              else (get_list (cities_to_visit (fsm_data s)), get_list (other_cities (fsm_data s)) @ [city_name])) \<and>
           get_list (cities_to_visit (fsm_data s2)) = get_list (cities_to_visit (fsm_data s)) \<and>
           get_list (other_cities (fsm_data s2)) = get_list (other_cities (fsm_data s)) \<and>
           fsm_state s2 = fsm_state s"
proof -
  let ?sel = "get_list (cities_to_visit (fsm_data s))"
  let ?oth = "get_list (other_cities (fsm_data s))"
  define s1 where "s1 = fst (process_city_selection s callback_data)"
  define s2 where "s2 = fst (process_city_selection s1 callback_data)"
  from toggle have t1: "city_name \<noteq> S ''done''" and t2: "city_name \<noteq> S ''other''"
    by simp_all
  from absent have a1: "city_name \<notin> set ?sel" and a2: "city_name \<notin> set ?oth"
    by simp_all
  have r1: "process_city_selection s callback_data = (s1, [EditMarkup])"
    unfolding s1_def by (simp add: process_city_selection_toggle [OF name t1 t2])
  have r2: "process_city_selection s1 callback_data = (s2, [EditMarkup])"
    unfolding s2_def by (simp add: process_city_selection_toggle [OF name t1 t2])
  have st1: "fsm_state s1 = fsm_state s"
    unfolding s1_def by (simp add: process_city_selection_toggle [OF name t1 t2])
  have st2: "fsm_state s2 = fsm_state s1"
    unfolding s2_def by (simp add: process_city_selection_toggle [OF name t1 t2])
  have l1: "(get_list (cities_to_visit (fsm_data s1)), get_list (other_cities (fsm_data s1))) =
            toggle_city city_name (?sel, ?oth)"
    unfolding s1_def by (simp add: process_city_selection_toggle [OF name t1 t2] get_list_def)
  have l2: "(get_list (cities_to_visit (fsm_data s2)), get_list (other_cities (fsm_data s2))) =
            toggle_city city_name (toggle_city city_name (?sel, ?oth))"
    unfolding s2_def
    using l1 by (simp add: process_city_selection_toggle [OF name t1 t2] get_list_def)
  have h1: "on_city_selection s callback_data = Some (s1, [EditMarkup])"
    using step prefix r1 by (simp add: on_city_selection_def handle_def callback_filter_def)
  have h2: "on_city_selection s1 callback_data = Some (s2, [EditMarkup])"
    using step st1 prefix r2 by (simp add: on_city_selection_def handle_def callback_filter_def)
  have once: "(get_list (cities_to_visit (fsm_data s1)), get_list (other_cities (fsm_data s1))) =
             (if city_name \<in> set known_cities then (?sel @ [city_name], ?oth)
              else (?sel, ?oth @ [city_name]))"
    using l1 by (simp add: toggle_city_absent [OF a1 a2])
  from once a1 a2 have one: "(city_name \<in> set (get_list (cities_to_visit (fsm_data s1)))) \<noteq>
            (city_name \<in> set (get_list (other_cities (fsm_data s1))))"
    by (auto split: if_splits)
  have twice: "(get_list (cities_to_visit (fsm_data s2)), get_list (other_cities (fsm_data s2))) = (?sel, ?oth)"
    using l2 by (simp add: toggle_city_twice [OF a1 a2])
  from h1 h2 one once twice st1 st2 show ?thesis
    by auto
qed

theorem city_toggle_twice_restores_witness:
  "\<exists>s1 s2.
     on_city_selection (sample_session TravelForm_cities_to_visit)
       (S ''city_'' @ [1052, 1077, 1082, 1082, 1072]) = Some (s1, [EditMarkup]) \<and>
     on_city_selection s1 (S ''city_'' @ [1052, 1077, 1082, 1082, 1072]) = Some (s2, [EditMarkup]) \<and>
     (([1052, 1077, 1082, 1082, 1072] \<in> set (get_list (cities_to_visit (fsm_data s1)))) \<noteq>
      ([1052, 1077, 1082, 1082, 1072] \<in> set (get_list (other_cities (fsm_data s1))))) \<and>
     (get_list (cities_to_visit (fsm_data s1)), get_list (other_cities (fsm_data s1))) =
       ([[1044, 1091, 1073, 1072, 1081], [1052, 1077, 1082, 1082, 1072]], [S ''Paris'']) \<and>
     get_list (cities_to_visit (fsm_data s2)) = [[1044, 1091, 1073, 1072, 1081]] \<and>
     get_list (other_cities (fsm_data s2)) = [S ''Paris''] \<and>
     fsm_state s2 = Some TravelForm_cities_to_visit"
proof -
  let ?s = "sample_session TravelForm_cities_to_visit"
  let ?d = "S ''city_'' @ [1052, 1077, 1082, 1082, 1072]"
  let ?c = "[1052, 1077, 1082, 1082, 1072] :: pystr"
  have step: "fsm_state ?s = Some TravelForm_cities_to_visit"
    by (simp add: sample_session_def)
  have prefix: "startswith ?d (S ''city_'')"
    by simp
  have name: "replace_del (S ''city_'') ?d = ?c"
    by simp
  have toggle: "?c \<noteq> S ''done'' \<and> ?c \<noteq> S ''other''"
    by simp
  have absent: "?c \<notin> set (get_list (cities_to_visit (fsm_data ?s))) \<and>
                ?c \<notin> set (get_list (other_cities (fsm_data ?s)))"
    by (simp add: sample_session_def sample_data_def get_list_def)
  have known: "?c \<in> set known_cities"
    by (simp add: known_cities_def)
  have lists: "get_list (cities_to_visit (fsm_data ?s)) = [[1044, 1091, 1073, 1072, 1081]]"
     "get_list (other_cities (fsm_data ?s)) = [S ''Paris'']"
    by (simp_all add: sample_session_def sample_data_def get_list_def)
  from city_toggle_twice_restores [OF step prefix name toggle absent]
  show ?thesis
    unfolding lists if_P [OF known] step by simp
qed

lemma process_city_selection_done:
  assumes "replace_del (S ''city_'') callback_data = S ''done''"
  shows "process_city_selection s callback_data =
     (if length (get_list (cities_to_visit (fsm_data s))) + length (get_list (other_cities (fsm_data s))) = 0
      then (s, [Alert ''select_at_least_one_city''])
      else if editing_field (fsm_data s) = Some (S ''cities'')
      then (\<lparr>fsm_state = Some TravelForm_review, fsm_data = (fsm_data s)\<lparr>editing_field := None\<rparr>\<rparr>,
            [Answer ''review_info''])
      else (\<lparr>fsm_state = Some TravelForm_days, fsm_data = fsm_data s\<rparr>, [EditText ''how_many_days'']))"
  using assms
  by (simp add: process_city_selection_def Let_def show_review_def set_state_def update_data_def)

text \<open>
  C5. In the cities-to-visit step the action \<^verbatim>\<open>done\<close> is rejected, with the alert
  \<^verbatim>\<open>select_at_least_one_city\<close> and the session as it was, if and only if both city
  lists are empty. With a city in either list it returns to the review step when the
  editing marker is \<^verbatim>\<open>cities\<close> (clearing the marker), and goes on to the days step
  otherwise; the collected fields stay as they are.
\<close>

theorem city_done_rejected_iff_both_empty:
  assumes step: "fsm_state s = Some TravelForm_cities_to_visit"
    and prefix: "startswith callback_data (S ''city_'')"
    and is_done: "replace_del (S ''city_'') callback_data = S ''done''"
  shows "(on_city_selection s callback_data = Some (s, [Alert ''select_at_least_one_city''])) =
           (get_list (cities_to_visit (fsm_data s)) = [] \<and> get_list (other_cities (fsm_data s)) = []) \<and>
         (\<not> (get_list (cities_to_visit (fsm_data s)) = [] \<and> get_list (other_cities (fsm_data s)) = []) \<longrightarrow>
            on_city_selection s callback_data =
              Some (if editing_field (fsm_data s) = Some (S ''cities'')
                    then (\<lparr>fsm_state = Some TravelForm_review,
                            fsm_data = (fsm_data s)\<lparr>editing_field := None\<rparr>\<rparr>,
                          [Answer ''review_info''])
                    else (\<lparr>fsm_state = Some TravelForm_days, fsm_data = fsm_data s\<rparr>,
                          [EditText ''how_many_days''])))"
proof -
  have h: "on_city_selection s callback_data = Some (process_city_selection s callback_data)"
    using step prefix by (simp add: on_city_selection_def handle_def callback_filter_def)
  show ?thesis
    unfolding h process_city_selection_done [OF is_done] by auto
qed

theorem city_done_rejected_iff_both_empty_witness:
  "on_city_selection (sample_session TravelForm_cities_to_visit) (S ''city_done'') =
      Some (\<lparr>fsm_state = Some TravelForm_days, fsm_data = sample_data\<rparr>, [EditText ''how_many_days'']) \<and>
   on_city_selection \<lparr>fsm_state = Some TravelForm_cities_to_visit, fsm_data = empty_data\<rparr> (S ''city_done'') =
      Some (\<lparr>fsm_state = Some TravelForm_cities_to_visit, fsm_data = empty_data\<rparr>,
            [Alert ''select_at_least_one_city''])"
proof -
  let ?s = "sample_session TravelForm_cities_to_visit"
  let ?e = "\<lparr>fsm_state = Some TravelForm_cities_to_visit, fsm_data = empty_data\<rparr>"
  have is_done: "replace_del (S ''city_'') (S ''city_done'') = S ''done''"
    by simp
  have prefix: "startswith (S ''city_done'') (S ''city_'')"
    by simp
  have step: "fsm_state ?s = Some TravelForm_cities_to_visit"
    by (simp add: sample_session_def)
  have lists: "get_list (cities_to_visit (fsm_data ?s)) \<noteq> []"
    by (simp add: sample_session_def sample_data_def get_list_def)
  have marker: "editing_field (fsm_data ?s) \<noteq> Some (S ''cities'')" "fsm_data ?s = sample_data"
    by (simp_all add: sample_session_def sample_data_def)
  have empty: "get_list (cities_to_visit (fsm_data ?e)) = [] \<and> get_list (other_cities (fsm_data ?e)) = []"
    by (simp add: empty_data_def get_list_def)
  from city_done_rejected_iff_both_empty [OF step prefix is_done] lists marker
  have full: "on_city_selection ?s (S ''city_done'') =
       Some (\<lparr>fsm_state = Some TravelForm_days, fsm_data = sample_data\<rparr>, [EditText ''how_many_days''])"
    by simp
  from city_done_rejected_iff_both_empty [of ?e, OF _ prefix is_done] empty
  have none: "on_city_selection ?e (S ''city_done'') = Some (?e, [Alert ''select_at_least_one_city''])"
    by simp
  from full none show ?thesis
    by simp
qed


section \<open>Properties of the custom numbers\<close>

lemma process_other_days_accepted:
  assumes "entered_int nd m = Some n" and "1 \<le> n"
  shows "process_other_days nd s m =
     (if editing_field (fsm_data s) = Some (S ''days'')
      then (\<lparr>fsm_state = Some TravelForm_review,
              fsm_data = (fsm_data s)\<lparr>days := Some (py_str n), editing_field := None\<rparr>\<rparr>,
            [Answer ''review_info''])
      else (\<lparr>fsm_state = Some TravelForm_people,
              fsm_data = (fsm_data s)\<lparr>days := Some (py_str n)\<rparr>\<rparr>,
            [Answer ''how_many_people'']))"
  using assms
  by (simp add: process_other_days_def Let_def show_review_def set_state_def update_data_def)

lemma process_other_days_rejected:
  assumes "\<not> (\<exists>n. entered_int nd m = Some n \<and> 1 \<le> n)"
  shows "process_other_days nd s m = (s, [Answer ''invalid_number''])"
  using assms by (cases "entered_int nd m") (auto simp: process_other_days_def)

lemma process_other_people_accepted:
  assumes "entered_int nd m = Some n" and "5 \<le> n"
  shows "process_other_people nd s m =
     (if editing_field (fsm_data s) = Some (S ''people'')
      then (\<lparr>fsm_state = Some TravelForm_review,
              fsm_data = (fsm_data s)\<lparr>people := Some (py_str n), editing_field := None\<rparr>\<rparr>,
            [Answer ''review_info''])
      else (\<lparr>fsm_state = Some TravelForm_need_translator,
              fsm_data = (fsm_data s)\<lparr>people := Some (py_str n)\<rparr>\<rparr>,
            [Answer ''need_translator'']))"
  using assms
  by (simp add: process_other_people_def Let_def show_review_def set_state_def update_data_def)

lemma process_other_people_rejected:
  assumes "\<not> (\<exists>n. entered_int nd m = Some n \<and> 5 \<le> n)"
  shows "process_other_people nd s m = (s, [Answer ''invalid_number_5_or_more''])"
  using assms by (cases "entered_int nd m") (auto simp: process_other_people_def)

text \<open>
  C6. A free-text entry of the custom-days step is accepted exactly when
  \<^verbatim>\<open>int(text.strip())\<close> gives an integer of at least 1: then its decimal form is stored
  as the days field and the conversation goes on (to the review step in edit mode).
  An entry of the custom-people step is accepted exactly when it gives an integer of
  at least 5. Every other entry is answered with the re-prompt and leaves the session,
  hence the stored days and people, as it was.
\<close>

theorem custom_number_accepted_iff_in_range:
  "(\<forall>n. entered_int nd m = Some n \<and> 1 \<le> n \<longrightarrow>
      process_other_days nd s m =
        (if editing_field (fsm_data s) = Some (S ''days'')
         then (\<lparr>fsm_state = Some TravelForm_review,
                 fsm_data = (fsm_data s)\<lparr>days := Some (py_str n), editing_field := None\<rparr>\<rparr>,
               [Answer ''review_info''])
         else (\<lparr>fsm_state = Some TravelForm_people,
                 fsm_data = (fsm_data s)\<lparr>days := Some (py_str n)\<rparr>\<rparr>,
               [Answer ''how_many_people'']))) \<and>
   (\<not> (\<exists>n. entered_int nd m = Some n \<and> 1 \<le> n) \<longrightarrow>
      process_other_days nd s m = (s, [Answer ''invalid_number''])) \<and>
   (\<forall>n. entered_int nd m = Some n \<and> 5 \<le> n \<longrightarrow>
      process_other_people nd s m =
        (if editing_field (fsm_data s) = Some (S ''people'')
         then (\<lparr>fsm_state = Some TravelForm_review,
                 fsm_data = (fsm_data s)\<lparr>people := Some (py_str n), editing_field := None\<rparr>\<rparr>,
               [Answer ''review_info''])
         else (\<lparr>fsm_state = Some TravelForm_need_translator,
                 fsm_data = (fsm_data s)\<lparr>people := Some (py_str n)\<rparr>\<rparr>,
               [Answer ''need_translator'']))) \<and>
   (\<not> (\<exists>n. entered_int nd m = Some n \<and> 5 \<le> n) \<longrightarrow>
      process_other_people nd s m = (s, [Answer ''invalid_number_5_or_more'']))"
  using process_other_days_accepted process_other_days_rejected
    process_other_people_accepted process_other_people_rejected
  by blast

lemma entered_twelve: "entered_int (\<lambda>c. None) (text_message (S '' 12 '')) = Some 12"
  by (simp add: entered_int_def text_message_def strip_def isspace_def py_int_def int_space_def
      int_unsigned_def decimal_def)

lemma entered_zero: "entered_int (\<lambda>c. None) (text_message (S ''0'')) = Some 0"
  by (simp add: entered_int_def text_message_def strip_def isspace_def py_int_def int_space_def
      int_unsigned_def decimal_def)

lemma entered_four: "entered_int (\<lambda>c. None) (text_message (S ''4'')) = Some 4"
  by (simp add: entered_int_def text_message_def strip_def isspace_def py_int_def int_space_def
      int_unsigned_def decimal_def)

lemma entered_letters: "entered_int (\<lambda>c. None) (text_message (S ''a week'')) = None"
  by (simp add: entered_int_def text_message_def strip_def isspace_def py_int_def int_space_def
      int_unsigned_def decimal_def)

lemma entered_fraction: "entered_int (\<lambda>c. None) (text_message (S ''2.5'')) = None"
  by (simp add: entered_int_def text_message_def strip_def isspace_def py_int_def int_space_def
      int_unsigned_def decimal_def)

lemma entered_negative: "entered_int (\<lambda>c. None) (text_message (S ''-3'')) = Some (- 3)"
  by (simp add: entered_int_def text_message_def strip_def isspace_def py_int_def int_space_def
      int_unsigned_def decimal_def)

lemma py_str_twelve: "py_str 12 = S ''12''"
  by (simp add: py_str_def str_nat.simps)

theorem custom_number_accepted_iff_in_range_witness:
  "process_other_days (\<lambda>c. None) (sample_session TravelForm_other_days) (text_message (S '' 12 '')) =
     (\<lparr>fsm_state = Some TravelForm_people, fsm_data = sample_data\<lparr>days := Some (S ''12'')\<rparr>\<rparr>,
      [Answer ''how_many_people'']) \<and>
   process_other_days (\<lambda>c. None) (sample_session TravelForm_other_days) (text_message (S ''0'')) =
     (sample_session TravelForm_other_days, [Answer ''invalid_number'']) \<and>
   process_other_days (\<lambda>c. None) (sample_session TravelForm_other_days) (text_message (S ''a week'')) =
     (sample_session TravelForm_other_days, [Answer ''invalid_number'']) \<and>
   process_other_people (\<lambda>c. None) (sample_session TravelForm_other_people) (text_message (S '' 12 '')) =
     (\<lparr>fsm_state = Some TravelForm_need_translator, fsm_data = sample_data\<lparr>people := Some (S ''12'')\<rparr>\<rparr>,
      [Answer ''need_translator'']) \<and>
   process_other_people (\<lambda>c. None) (sample_session TravelForm_other_people) (text_message (S ''4'')) =
     (sample_session TravelForm_other_people, [Answer ''invalid_number_5_or_more''])"
proof -
  let ?nd = "\<lambda>c::nat. None :: nat option"
  let ?d = "sample_session TravelForm_other_days"
  let ?p = "sample_session TravelForm_other_people"
  have marker: "editing_field (fsm_data ?d) = None" "fsm_data ?d = sample_data"
      "editing_field (fsm_data ?p) = None" "fsm_data ?p = sample_data"
    by (simp_all add: sample_session_def sample_data_def)
  have a: "process_other_days ?nd ?d (text_message (S '' 12 '')) =
     (\<lparr>fsm_state = Some TravelForm_people, fsm_data = sample_data\<lparr>days := Some (S ''12'')\<rparr>\<rparr>,
      [Answer ''how_many_people''])"
    using custom_number_accepted_iff_in_range [of ?nd "text_message (S '' 12 '')" ?d]
      entered_twelve marker by (simp add: py_str_twelve)
  have b: "process_other_days ?nd ?d (text_message (S ''0'')) = (?d, [Answer ''invalid_number''])"
    using custom_number_accepted_iff_in_range [of ?nd "text_message (S ''0'')" ?d] entered_zero
    by simp
  have c: "process_other_days ?nd ?d (text_message (S ''a week'')) = (?d, [Answer ''invalid_number''])"
    using custom_number_accepted_iff_in_range [of ?nd "text_message (S ''a week'')" ?d] entered_letters
    by simp
  have d: "process_other_people ?nd ?p (text_message (S '' 12 '')) =
     (\<lparr>fsm_state = Some TravelForm_need_translator, fsm_data = sample_data\<lparr>people := Some (S ''12'')\<rparr>\<rparr>,
      [Answer ''need_translator''])"
    using custom_number_accepted_iff_in_range [of ?nd "text_message (S '' 12 '')" ?p]
      entered_twelve marker by (simp add: py_str_twelve)
  have e: "process_other_people ?nd ?p (text_message (S ''4'')) = (?p, [Answer ''invalid_number_5_or_more''])"
    using custom_number_accepted_iff_in_range [of ?nd "text_message (S ''4'')" ?p] entered_four
    by simp
  from a b c d e show ?thesis
    by simp
qed


section \<open>Properties of the stored files\<close>

lemma mark_entry_missing:
  assumes "\<forall>e \<in> set requests. \<exists>kvs. e = JDict kvs \<and> map_of kvs (S ''id'') \<noteq> Some (JStr rid)"
  shows "mark_entry rid admin now requests = Inr None"
  using assms by (induction requests) auto

lemma mark_request_processed_missing:
  assumes "load_pending_requests f = Inr requests"
    and "\<forall>e \<in> set requests. \<exists>kvs. e = JDict kvs \<and> map_of kvs (S ''id'') \<noteq> Some (JStr rid)"
  shows "mark_request_processed now f rid admin = Inr (False, f)"
  using mark_entry_missing [OF assms(2)] assms(1) by (simp add: mark_request_processed_def)

lemma mark_entry_first:
  assumes "map_of kvs (S ''id'') = Some (JStr rid)"
  shows "mark_entry rid admin now (JDict kvs # rest) =
     Inr (Some (JDict (AList.update (S ''processed_at'') (JStr now)
                        (AList.update (S ''processed_by'') (JInt admin)
                          (AList.update (S ''status'') (JStr (S ''processed'')) kvs))) # rest))"
  using assms by simp

text \<open>
  C3. Marking an identifier with no matching entry reports failure and leaves the file
  alone (\<open>mark_request_processed_missing\<close>), and marking the first entry with the
  identifier reports success and sets its status to \<^verbatim>\<open>processed\<close>
  (\<open>mark_entry_first\<close>). The status of the entry is never read, though: marking a
  request that is already processed reports success again, overwrites who processed
  it and when, and the administrator is told that the request was marked, not that it
  was already handled.
\<close>

theorem mark_request_processed_again:
  "mark_request_processed (S ''2026-11-03T12:00:00'') (Json (JList [processed_entry])) (S ''r1'') 8 =
     Inr (True,
          Json (JList [JDict [(S ''id'', JStr (S ''r1'')), (S ''status'', JStr (S ''processed'')),
                              (S ''created_at'', JStr (S ''2026-11-01T10:00:00'')),
                              (S ''payload'', JDict [(S ''user_id'', JInt 42)]),
                              (S ''processed_by'', JInt 8),
                              (S ''processed_at'', JStr (S ''2026-11-03T12:00:00''))]])) \<and>
   admin_mark_request_done_alert True = S ''Request marked as processed '' @ [9989]"
  by (simp add: mark_request_processed_def load_pending_requests_def processed_entry_def
      save_pending_requests_def admin_mark_request_done_alert_def)

lemma load_pending_requests_empty:
  "f = Missing \<or> f = Unreadable \<or> f = NotJson \<or> (\<exists>v. f = Json v \<and> (\<forall>xs. v \<noteq> JList xs))
   \<Longrightarrow> load_pending_requests f = Inr []"
  by (auto simp: load_pending_requests_def split: json.splits)

lemma get_user_language_no_file:
  "f = Missing \<or> f = NotJson \<Longrightarrow> get_user_language f uid = Inr JNull"
  by (auto simp: get_user_language_def)

text \<open>
  C9. Reading the pending requests gives the empty list for a missing or unreadable
  file, for text that is not JSON and for JSON that is not a list
  (\<open>load_pending_requests_empty\<close>). Reading a user's language gives \<^verbatim>\<open>None\<close> for a
  missing file and for text that is not JSON (\<open>get_user_language_no_file\<close>), but it
  raises for a file that cannot be opened and for JSON that is not a dictionary, the
  two cases its sibling handles. Both readers raise for bytes that are not UTF-8 and
  for JSON nested too deeply.
\<close>

theorem get_user_language_raises:
  "get_user_language (Json (JList [])) 42 = Inl AttributeError \<and>
   get_user_language Unreadable 42 = Inl OSError \<and>
   load_pending_requests (Json (JDict [])) = Inr [] \<and>
   load_pending_requests Unreadable = Inr [] \<and>
   get_user_language BadEncoding 42 = Inl UnicodeDecodeError \<and>
   get_user_language TooDeep 42 = Inl RecursionError \<and>
   load_pending_requests BadEncoding = Inl UnicodeDecodeError \<and>
   load_pending_requests TooDeep = Inl RecursionError"
  by (simp add: get_user_language_def load_pending_requests_def)



section \<open>Properties of the submission\<close>






lemma finalize_submission_reader_raises:
  assumes "load_pending_requests (pending_file fs) = Inl e"
  shows "finalize_submission sub from_callback s fs =
           ((s, fs\<lparr>csv_file := save_to_csv (now_csv sub) (fsm_data s) (csv_file fs)\<rparr>), [Raised e])"
  using assms by (simp add: finalize_submission_def add_pending_request_def Let_def)


section \<open>Properties of the calendar\<close>

lemma str_nat_digits: "set (str_nat n) \<subseteq> {48..57}"
proof (induction n rule: str_nat.induct)
  case (1 n)
  show ?case
  proof (cases "n < 10")
    case True
    then show ?thesis by (simp add: str_nat.simps [of n])
  next
    case False
    have "n mod 10 < 10" by simp
    then have "48 + n mod 10 \<in> {48..57}" by auto
    with 1 False show ?thesis by (simp add: str_nat.simps [of n])
  qed
qed

lemma str_nat_no_underscore: "95 \<notin> set (str_nat n)"
  using str_nat_digits [of n] by auto

lemma length_str_nat_1: "n < 10 \<Longrightarrow> length (str_nat n) = 1"
  by (simp add: str_nat.simps [of n])

lemma length_str_nat_step: "10 \<le> n \<Longrightarrow> length (str_nat n) = Suc (length (str_nat (n div 10)))"
  by (simp add: str_nat.simps [of n])

lemma length_str_nat_2: "10 \<le> n \<Longrightarrow> n < 100 \<Longrightarrow> length (str_nat n) = 2"
  by (simp add: length_str_nat_step length_str_nat_1)

lemma length_str_nat_3:
  assumes "100 \<le> n" and "n < 1000"
  shows "length (str_nat n) = 3"
proof -
  from assms have "10 \<le> n div 10" and "n div 10 < 100"
    by auto
  then have "length (str_nat (n div 10)) = 2"
    by (rule length_str_nat_2)
  with assms show ?thesis
    by (simp add: length_str_nat_step [of n])
qed

lemma length_str_nat_4:
  assumes "1000 \<le> n" and "n < 10000"
  shows "length (str_nat n) = 4"
proof -
  from assms have "100 \<le> n div 10" and "n div 10 < 1000"
    by auto
  then have "length (str_nat (n div 10)) = 3"
    by (rule length_str_nat_3)
  with assms show ?thesis
    by (simp add: length_str_nat_step [of n])
qed

lemma fmt_02d_zfill: "0 \<le> n \<Longrightarrow> n < 100 \<Longrightarrow> fmt_02d n = zfill 2 (str_nat (nat n))"
proof (cases "n < 10")
  case True
  assume "0 \<le> n"
  with True have "length (str_nat (nat n)) = 1"
    by (simp add: length_str_nat_1)
  with True \<open>0 \<le> n\<close> show ?thesis
    by (simp add: fmt_02d_def zfill_def)
next
  case False
  assume "n < 100"
  with False have "length (str_nat (nat n)) = 2"
    by (simp add: length_str_nat_2)
  with False show ?thesis
    by (simp add: fmt_02d_def zfill_def)
qed

lemma date_string_isoformat:
  assumes "1000 \<le> y" and "y \<le> 9999" and "1 \<le> m" and "m \<le> 12" and "1 \<le> d" and "d \<le> 31"
  shows "date_string y m d = isoformat (y, m, d)"
proof -
  from assms have "length (str_nat (nat y)) = 4"
    by (simp add: length_str_nat_4)
  then have "zfill 4 (str_nat (nat y)) = py_str y"
    using assms by (simp add: zfill_def py_str_def)
  with assms show ?thesis
    by (simp add: date_string_def fmt_02d_zfill)
qed

lemma isoformat_no_underscore: "95 \<notin> set (isoformat (y, m, d))"
  using str_nat_no_underscore by (auto simp: zfill_def)

lemma split_on_no_sep: "sep \<notin> set x \<Longrightarrow> split_on sep x = [x]"
  by (induction x) auto

lemma cal_day_parts:
  "95 \<notin> set x \<Longrightarrow> split_on 95 (S ''cal_day_'' @ x) = [S ''cal'', S ''day'', x]"
  by (simp add: split_on_no_sep)

lemma process_date_calendar_day:
  assumes "95 \<notin> set x"
  shows "fst (process_date_calendar rt s (S ''cal_day_'' @ x)) =
           s\<lparr>fsm_data := (fsm_data s)\<lparr>start_date := Some x\<rparr>\<rparr>"
  using assms
  by (simp add: process_date_calendar_def split_on_no_sep item_def Let_def update_data_def
      split: option.split)

lemma days_in_month_le: "days_in_month y m \<le> 31"
  by (simp add: days_in_month_def)

lemma datetime_Some:
  assumes "datetime y m d = Some date_obj"
  shows "date_obj = (y, m, d) \<and> 1 \<le> y \<and> y \<le> 9999 \<and> 1 \<le> m \<and> m \<le> 12 \<and> 1 \<le> d \<and> d \<le> 31"
  using assms days_in_month_le [of y m] by (auto simp: datetime_def split: if_splits)

lemma day_button_past:
  assumes "day_button now_date y m d = Inr b" and "d \<noteq> 0" and "date_less (y, m, d) now_date"
  shows "b = S ''cal_ignore''"
  using assms by (auto simp: day_button_def Let_def split: option.splits if_splits dest: datetime_Some)

lemma day_button_open:
  assumes "day_button now_date y m d = Inr b" and "d \<noteq> 0" and "\<not> date_less (y, m, d) now_date"
    and "1000 \<le> fst now_date"
  shows "b = S ''cal_day_'' @ isoformat (y, m, d)"
proof -
  from assms(1,2) obtain date_obj where dt: "datetime y m d = Some date_obj"
    by (auto simp: day_button_def Let_def split: option.splits)
  from datetime_Some [OF dt] have obj: "date_obj = (y, m, d)"
    and range: "y \<le> 9999" "1 \<le> m" "m \<le> 12" "1 \<le> d" "d \<le> 31"
    by simp_all
  obtain ty tm td where now: "now_date = (ty, tm, td)"
    by (cases now_date)
  from assms(3,4) now have "1000 \<le> y"
    by auto
  with range have "date_string y m d = isoformat (y, m, d)"
    by (simp add: date_string_isoformat)
  with assms(1,2,3) dt obj show ?thesis
    by (simp add: day_button_def Let_def)
qed

lemma add_buttons_nth:
  assumes "add_buttons f xs = Inr bs"
  shows "length bs = length xs \<and> (\<forall>i < length xs. f (xs ! i) = Inr (bs ! i))"
  using assms
proof (induction xs arbitrary: bs)
  case Nil
  then show ?case by simp
next
  case (Cons x xs)
  from Cons.prems obtain b bs' where b: "f x = Inr b" and rest: "add_buttons f xs = Inr bs'"
    and bs: "bs = b # bs'"
    by (auto split: sum.splits)
  from Cons.IH [OF rest] have len: "length bs' = length xs"
    and nth: "\<forall>i < length xs. f (xs ! i) = Inr (bs' ! i)"
    by simp_all
  show ?case
  proof (intro conjI allI impI)
    show "length bs = length (x # xs)"
      using len bs by simp
  next
    fix i
    assume "i < length (x # xs)"
    then show "f ((x # xs) ! i) = Inr (bs ! i)"
      using b nth bs by (cases i) simp_all
  qed
qed

lemma get_calendar_keyboard_cells:
  assumes "get_calendar_keyboard rt y m = Inr kb"
  shows "\<exists>cells. days_grid (today rt) y m (monthcalendar rt y m) = Inr cells \<and>
           kb = replicate 7 (S ''cal_ignore'') @ cells @
                [S ''cal_prev_'' @ py_str y @ S ''_'' @ py_str m, S ''cal_ignore'',
                 S ''cal_next_'' @ py_str y @ S ''_'' @ py_str m, S ''cal_skip'']"
  using assms by (auto simp: get_calendar_keyboard_def split: if_splits sum.splits option.splits)

lemma keyboard_day_cell:
  assumes kb: "get_calendar_keyboard rt y m = Inr kb"
    and i: "i < length (concat (monthcalendar rt y m))"
  shows "day_button (today rt) y m (concat (monthcalendar rt y m) ! i) = Inr (kb ! (7 + i))"
proof -
  from get_calendar_keyboard_cells [OF kb] obtain cells where
    grid: "days_grid (today rt) y m (monthcalendar rt y m) = Inr cells"
    and shape: "kb = replicate 7 (S ''cal_ignore'') @ cells @
                [S ''cal_prev_'' @ py_str y @ S ''_'' @ py_str m, S ''cal_ignore'',
                 S ''cal_next_'' @ py_str y @ S ''_'' @ py_str m, S ''cal_skip'']"
    by blast
  from add_buttons_nth [OF grid [unfolded days_grid_def]] i
  have len: "length cells = length (concat (monthcalendar rt y m))"
    and cell: "day_button (today rt) y m (concat (monthcalendar rt y m) ! i) = Inr (cells ! i)"
    by simp_all
  have "kb ! (7 + i) = cells ! i"
    using i len unfolding shape by (simp add: nth_append)
  with cell show ?thesis
    by simp
qed

lemma add_buttons_total:
  assumes "\<forall>x \<in> set xs. \<exists>b. f x = Inr b"
  shows "\<exists>bs. add_buttons f xs = Inr bs"
  using assms by (induction xs) auto

lemma november_2026_keyboard: "\<exists>kb. get_calendar_keyboard sample_runtime 2026 11 = Inr kb"
proof -
  have "\<forall>x \<in> set (concat november_2026). \<exists>b. day_button (2026, 11, 3) 2026 11 x = Inr b"
    by (simp add: november_2026_def day_button_def datetime_def days_in_month_def Let_def)
  from add_buttons_total [OF this] obtain cells where
    "days_grid (2026, 11, 3) 2026 11 november_2026 = Inr cells"
    unfolding days_grid_def by blast
  then show ?thesis
    by (simp add: get_calendar_keyboard_def sample_runtime_def datetime_def days_in_month_def)
qed

lemma isoformat_sample: "isoformat (2026, 11, 15) = S ''2026-11-15''"
  by (simp add: zfill_def str_nat.simps)

text \<open>
  C7. In a calendar that \<^verbatim>\<open>get_calendar_keyboard\<close> has rendered, the button of every
  day of the month that lies strictly before the current date carries \<^verbatim>\<open>cal_ignore\<close>,
  which the handler of the start-date step answers without a reply and without a change
  of the session. The button of every day that is today or later carries
  \<^verbatim>\<open>cal_day_\<close> and the date, and pressing it stores exactly that date in the form
  YYYY-MM-DD as the start date, all other fields and the step being as before. (The
  day buttons follow the seven weekday headers; the clock is taken to show a year of
  four digits.)
\<close>

theorem calendar_past_days_inert_open_days_stored:
  assumes kb: "get_calendar_keyboard rt y m = Inr kb"
    and i: "i < length (concat (monthcalendar rt y m))"
    and d: "concat (monthcalendar rt y m) ! i = d" "d \<noteq> 0"
    and clock: "1000 \<le> fst (today rt)"
    and step: "fsm_state s = Some TravelForm_start_date"
  shows "(date_less (y, m, d) (today rt) \<longrightarrow>
            kb ! (7 + i) = S ''cal_ignore'' \<and>
            on_date_calendar rt s (kb ! (7 + i)) = Some (s, [])) \<and>
         (\<not> date_less (y, m, d) (today rt) \<longrightarrow>
            kb ! (7 + i) = S ''cal_day_'' @ isoformat (y, m, d) \<and>
            map_option fst (on_date_calendar rt s (kb ! (7 + i))) =
              Some (s\<lparr>fsm_data := (fsm_data s)\<lparr>start_date := Some (isoformat (y, m, d))\<rparr>\<rparr>))"
proof (intro conjI impI)
  have cell: "day_button (today rt) y m d = Inr (kb ! (7 + i))"
    using keyboard_day_cell [OF kb i] d by simp
  {
    assume past: "date_less (y, m, d) (today rt)"
    show ign: "kb ! (7 + i) = S ''cal_ignore''"
      using day_button_past [OF cell d(2) past] .
    show "on_date_calendar rt s (kb ! (7 + i)) = Some (s, [])"
      unfolding ign using step
      by (simp add: on_date_calendar_def handle_def callback_filter_def process_date_calendar_def)
  }
  {
    assume open_day: "\<not> date_less (y, m, d) (today rt)"
    show b: "kb ! (7 + i) = S ''cal_day_'' @ isoformat (y, m, d)"
      using day_button_open [OF cell d(2) open_day clock] .
    have "on_date_calendar rt s (S ''cal_day_'' @ isoformat (y, m, d)) =
            Some (process_date_calendar rt s (S ''cal_day_'' @ isoformat (y, m, d)))"
      using step by (simp add: on_date_calendar_def handle_def callback_filter_def)
    then show "map_option fst (on_date_calendar rt s (kb ! (7 + i))) =
              Some (s\<lparr>fsm_data := (fsm_data s)\<lparr>start_date := Some (isoformat (y, m, d))\<rparr>\<rparr>)"
      unfolding b
      using process_date_calendar_day [OF isoformat_no_underscore, of rt s y m d] by simp
  }
qed


theorem calendar_past_days_inert_open_days_stored_witness:
  "\<exists>kb. get_calendar_keyboard sample_runtime 2026 11 = Inr kb \<and>
         kb ! 14 = S ''cal_ignore'' \<and>
         on_date_calendar sample_runtime (sample_session TravelForm_start_date) (kb ! 14) =
           Some (sample_session TravelForm_start_date, []) \<and>
         kb ! 27 = S ''cal_day_2026-11-15'' \<and>
         map_option fst (on_date_calendar sample_runtime (sample_session TravelForm_start_date) (kb ! 27)) =
           Some \<lparr>fsm_state = Some TravelForm_start_date,
                 fsm_data = sample_data\<lparr>start_date := Some (S ''2026-11-15'')\<rparr>\<rparr>"
proof -
  let ?s = "sample_session TravelForm_start_date"
  from november_2026_keyboard obtain kb where kb: "get_calendar_keyboard sample_runtime 2026 11 = Inr kb"
    by blast
  have clock: "1000 \<le> fst (today sample_runtime)"
    by (simp add: sample_runtime_def)
  have step: "fsm_state ?s = Some TravelForm_start_date"
    by (simp add: sample_session_def)
  have i7: "7 < length (concat (monthcalendar sample_runtime 2026 11))"
    and i20: "20 < length (concat (monthcalendar sample_runtime 2026 11))"
    by (simp_all add: sample_runtime_def november_2026_def)
  have d2: "concat (monthcalendar sample_runtime 2026 11) ! 7 = 2"
    and d15: "concat (monthcalendar sample_runtime 2026 11) ! 20 = 15"
    by (simp_all add: sample_runtime_def november_2026_def)
  have past: "date_less (2026, 11, 2) (today sample_runtime)"
    and later: "\<not> date_less (2026, 11, 15) (today sample_runtime)"
    by (simp_all add: sample_runtime_def)
  have nz: "(2::int) \<noteq> 0" "(15::int) \<noteq> 0"
    by simp_all
  from calendar_past_days_inert_open_days_stored [OF kb i7 d2 nz(1) clock step] past
  have a: "kb ! (7 + 7) = S ''cal_ignore''"
       "on_date_calendar sample_runtime ?s (kb ! (7 + 7)) = Some (?s, [])"
    by blast+
  from calendar_past_days_inert_open_days_stored [OF kb i20 d15 nz(2) clock step] later
  have b: "kb ! (7 + 20) = S ''cal_day_'' @ isoformat (2026, 11, 15)"
       "map_option fst (on_date_calendar sample_runtime ?s (kb ! (7 + 20))) =
          Some (?s\<lparr>fsm_data := (fsm_data ?s)\<lparr>start_date := Some (isoformat (2026, 11, 15))\<rparr>\<rparr>)"
    by blast+
  have c: "?s\<lparr>fsm_data := (fsm_data ?s)\<lparr>start_date := Some (S ''2026-11-15'')\<rparr>\<rparr> =
           \<lparr>fsm_state = Some TravelForm_start_date,
            fsm_data = sample_data\<lparr>start_date := Some (S ''2026-11-15'')\<rparr>\<rparr>"
    by (simp add: sample_session_def)
  have n: "7 + 7 = (14::nat)" "7 + 20 = (27::nat)"
    by simp_all
  have e: "S ''cal_day_'' @ S ''2026-11-15'' = S ''cal_day_2026-11-15''"
    by simp
  from kb a b show ?thesis
    unfolding isoformat_sample n c e by blast
qed


section \<open>Properties of edit mode\<close>

lemmas edit_defs = on_edit_field_def handle_def callback_filter_def process_edit_field_def
  Let_def update_data_def set_state_def show_start_date_calendar_def show_review_def after_def
  review_with_def next_event_def message_filter_def

lemma edit_days_preset_returns:
  assumes "fsm_state s = Some TravelForm_review"
    and "startswith d (S ''days_'')" and "replace_del (S ''days_'') d \<noteq> S ''other''"
  shows "map_option fst (next_event (on_edit_field s (S ''edit_days'')) (\<lambda>s1. on_days s1 d)) =
           Some (review_with ((fsm_data s)\<lparr>days := Some (replace_del (S ''days_'') d)\<rparr>))"
  using assms by (simp add: edit_defs on_days_def process_days_def)

lemma edit_days_custom_returns:
  assumes "fsm_state s = Some TravelForm_review"
    and "\<not> is_command m" and "entered_int nd m = Some n" and "1 \<le> n"
  shows "map_option fst (next_event (next_event (on_edit_field s (S ''edit_days''))
                                       (\<lambda>s1. on_days s1 (S ''days_other'')))
                                    (\<lambda>s2. on_other_days is_command nd s2 m)) =
           Some (review_with ((fsm_data s)\<lparr>days := Some (py_str n)\<rparr>))"
  using assms
  by (simp add: edit_defs on_days_def process_days_def on_other_days_def
      process_other_days_filter_def process_other_days_def)

lemma edit_people_preset_returns:
  assumes "fsm_state s = Some TravelForm_review"
    and "startswith d (S ''people_'')" and "replace_del (S ''people_'') d \<noteq> S ''4plus''"
  shows "map_option fst (next_event (on_edit_field s (S ''edit_people'')) (\<lambda>s1. on_people s1 d)) =
           Some (review_with ((fsm_data s)\<lparr>people := Some (replace_del (S ''people_'') d)\<rparr>))"
  using assms by (simp add: edit_defs on_people_def process_people_def)

lemma edit_people_custom_returns:
  assumes "fsm_state s = Some TravelForm_review"
    and "\<not> is_command m" and "entered_int nd m = Some n" and "5 \<le> n"
  shows "map_option fst (next_event (next_event (on_edit_field s (S ''edit_people''))
                                       (\<lambda>s1. on_people s1 (S ''people_4plus'')))
                                    (\<lambda>s2. on_other_people is_command nd s2 m)) =
           Some (review_with ((fsm_data s)\<lparr>people := Some (py_str n)\<rparr>))"
  using assms
  by (simp add: edit_defs on_people_def process_people_def on_other_people_def
      process_other_people_filter_def process_other_people_def)

lemma edit_translator_no_returns:
  assumes "fsm_state s = Some TravelForm_review"
  shows "map_option fst (next_event (on_edit_field s (S ''edit_translator''))
                                    (\<lambda>s1. on_translator s1 (S ''translator_no''))) =
           Some (review_with ((fsm_data s)
                   \<lparr>need_translator := Some (S ''No''), translator_language := Some []\<rparr>))"
  using assms by (simp add: edit_defs on_translator_def process_translator_def)

lemma edit_translator_language_returns:
  assumes "fsm_state s = Some TravelForm_review"
    and "startswith d (S ''lang_'')" and "replace_del (S ''lang_'') d \<noteq> S ''other''"
  shows "map_option fst (next_event (next_event (on_edit_field s (S ''edit_translator''))
                                       (\<lambda>s1. on_translator s1 (S ''translator_yes'')))
                                    (\<lambda>s2. on_language s2 d)) =
           Some (review_with ((fsm_data s)
                   \<lparr>need_translator := Some (S ''Yes''),
                    translator_language := Some (replace_del (S ''lang_'') d)\<rparr>))"
  using assms
  by (simp add: edit_defs on_translator_def process_translator_def on_language_def
      process_language_def)

lemma edit_translator_other_language_returns:
  assumes "fsm_state s = Some TravelForm_review"
    and "\<not> is_command m" and "msg_text m = Some t" and "1 \<le> length (strip t)"
  shows "map_option fst (next_event (next_event (next_event (on_edit_field s (S ''edit_translator''))
                                          (\<lambda>s1. on_translator s1 (S ''translator_yes'')))
                                       (\<lambda>s2. on_language s2 (S ''lang_other'')))
                                    (\<lambda>s3. on_other_language is_command s3 m)) =
           Some (review_with ((fsm_data s)
                   \<lparr>need_translator := Some (S ''Yes''), translator_language := Some (strip t)\<rparr>))"
  using assms
  by (auto simp add: edit_defs on_translator_def process_translator_def on_language_def
      process_language_def on_other_language_def process_other_language_filter_def
      process_other_language_def)

lemma edit_dates_pick_returns:
  assumes "fsm_state s = Some TravelForm_review" and "95 \<notin> set x"
    and "strptime rt x = Some parsed"
  shows "map_option snd (next_event (on_edit_field s (S ''edit_dates''))
                                    (\<lambda>s1. on_date_calendar rt s1 (S ''cal_day_'' @ x))) =
           Some [EditText ''date_selected'']"
    and "map_option fst (next_event (next_event (on_edit_field s (S ''edit_dates''))
                                       (\<lambda>s1. on_date_calendar rt s1 (S ''cal_day_'' @ x)))
                                    (\<lambda>s2. on_date_calendar rt s2 (S ''cal_confirm_'' @ x))) =
           Some (review_with ((fsm_data s)\<lparr>start_date := Some x\<rparr>))"
  using assms
  by (simp_all add: edit_defs on_date_calendar_def process_date_calendar_def split_on_no_sep item_def
      split: option.split)

lemma edit_dates_skip_returns:
  assumes "fsm_state s = Some TravelForm_review"
  shows "map_option fst (next_event (on_edit_field s (S ''edit_dates''))
                                    (\<lambda>s1. on_date_calendar rt s1 (S ''cal_skip''))) =
           Some (review_with ((fsm_data s)\<lparr>start_date := Some []\<rparr>))"
  using assms
  by (simp add: edit_defs on_date_calendar_def process_date_calendar_def)


lemma editing_cities_callback:
  assumes inv: "editing_cities D s" and nd: "replace_del (S ''city_'') d \<noteq> S ''done''"
    and ev: "city_event is_command s (Callback d) = Some s1"
  shows "editing_cities D s1"
proof -
  from inv have st: "fsm_state s = Some TravelForm_cities_to_visit \<or>
                     fsm_state s = Some TravelForm_other_city"
    by (simp add: editing_cities_def)
  show ?thesis
  proof (cases "callback_filter TravelForm_cities_to_visit (S ''city_'') s d")
    case False
    with ev st have "s1 = s"
      by (auto simp: city_event_def on_city_selection_def handle_def)
    with inv show ?thesis
      by simp
  next
    case True
    with ev st have s1: "s1 = fst (process_city_selection s d)"
      by (auto simp: city_event_def on_city_selection_def handle_def)
    show ?thesis
    proof (cases "replace_del (S ''city_'') d = S ''other''")
      case True
      then have "fst (process_city_selection s d) = s\<lparr>fsm_state := Some TravelForm_other_city\<rparr>"
        by (simp add: process_city_selection_def Let_def set_state_def)
      with inv show ?thesis
        unfolding s1 editing_cities_def by simp
    next
      case False
      with nd have "fst (process_city_selection s d) =
         s\<lparr>fsm_data := (fsm_data s)
            \<lparr>cities_to_visit := Some (fst (toggle_city (replace_del (S ''city_'') d)
                         (get_list (cities_to_visit (fsm_data s)), get_list (other_cities (fsm_data s))))),
             other_cities := Some (snd (toggle_city (replace_del (S ''city_'') d)
                         (get_list (cities_to_visit (fsm_data s)), get_list (other_cities (fsm_data s)))))\<rparr>\<rparr>"
        by (simp add: process_city_selection_def Let_def update_data_def)
      with inv show ?thesis
        unfolding s1 editing_cities_def by simp
    qed
  qed
qed

lemma editing_cities_message:
  assumes inv: "editing_cities D s"
    and ev: "city_event is_command s (Message m) = Some s1"
  shows "editing_cities D s1"
proof -
  from inv have st: "fsm_state s = Some TravelForm_cities_to_visit \<or>
                     fsm_state s = Some TravelForm_other_city"
    by (simp add: editing_cities_def)
  from ev st have nc: "\<not> is_command m"
    by (auto simp: city_event_def split: if_splits)
  show ?thesis
  proof (cases "fsm_state s = Some TravelForm_other_city")
    case False
    with ev st nc have "s1 = s"
      by (auto simp: city_event_def on_other_city_def handle_def message_filter_def
          process_other_city_filter_def)
    with inv show ?thesis
      by simp
  next
    case True
    with ev nc have s1: "s1 = fst (process_other_city s m)"
      by (auto simp: city_event_def on_other_city_def handle_def message_filter_def
          process_other_city_filter_def)
    have "editing_cities D (fst (process_other_city s m))"
      using inv
      by (simp add: process_other_city_def Let_def set_state_def update_data_def editing_cities_def
          split: option.split)
    then show ?thesis
      unfolding s1 .
  qed
qed

lemma editing_cities_events:
  assumes "editing_cities D s"
    and "\<forall>d. Callback d \<in> set evs \<longrightarrow> replace_del (S ''city_'') d \<noteq> S ''done''"
    and "city_events is_command s evs = Some s2"
  shows "editing_cities D s2"
  using assms
proof (induction evs arbitrary: s)
  case Nil
  then show ?case by simp
next
  case (Cons e evs)
  from Cons.prems(3) obtain s1 where s1: "city_event is_command s e = Some s1"
    and rest: "city_events is_command s1 evs = Some s2"
    by (auto split: option.splits)
  have "editing_cities D s1"
  proof (cases e)
    case (Callback d)
    from Cons.prems(2) have nd: "replace_del (S ''city_'') d \<noteq> S ''done''"
      unfolding Callback by simp
    from s1 have "city_event is_command s (Callback d) = Some s1"
      unfolding Callback .
    from editing_cities_callback [OF Cons.prems(1) nd this] show ?thesis .
  next
    case (Message m)
    from s1 have "city_event is_command s (Message m) = Some s1"
      unfolding Message .
    from editing_cities_message [OF Cons.prems(1) this] show ?thesis .
  qed
  with Cons.IH [of s1] Cons.prems(2) rest show ?case
    by simp
qed

lemma edit_cities_starts:
  assumes "fsm_state s = Some TravelForm_review"
  shows "on_edit_field s (S ''edit_cities'') =
           Some (\<lparr>fsm_state = Some TravelForm_cities_to_visit,
                  fsm_data = (fsm_data s)\<lparr>editing_field := Some (S ''cities'')\<rparr>\<rparr>,
                 [EditText ''select_cities''])"
  using assms by (simp add: edit_defs)

lemma edit_cities_returns:
  assumes evs: "\<forall>d. Callback d \<in> set evs \<longrightarrow> replace_del (S ''city_'') d \<noteq> S ''done''"
    and s2: "city_events is_command
               \<lparr>fsm_state = Some TravelForm_cities_to_visit,
                fsm_data = (fsm_data s)\<lparr>editing_field := Some (S ''cities'')\<rparr>\<rparr> evs = Some s2"
    and step: "fsm_state s2 = Some TravelForm_cities_to_visit"
    and chosen: "get_list (cities_to_visit (fsm_data s2)) @ get_list (other_cities (fsm_data s2)) \<noteq> []"
  shows "map_option fst (on_city_selection s2 (S ''city_done'')) =
           Some (review_with ((fsm_data s)
                   \<lparr>cities_to_visit := cities_to_visit (fsm_data s2),
                    other_cities := other_cities (fsm_data s2)\<rparr>))"
proof -
  have "editing_cities (fsm_data s)
          \<lparr>fsm_state = Some TravelForm_cities_to_visit,
           fsm_data = (fsm_data s)\<lparr>editing_field := Some (S ''cities'')\<rparr>\<rparr>"
    unfolding editing_cities_def by simp
  from editing_cities_events [OF this evs s2] have inv: "editing_cities (fsm_data s) s2" .
  then have marker: "editing_field (fsm_data s2) = Some (S ''cities'')"
    and frame: "(fsm_data s2)\<lparr>cities_to_visit := None, other_cities := None, editing_field := None\<rparr> =
                (fsm_data s)\<lparr>cities_to_visit := None, other_cities := None, editing_field := None\<rparr>"
    unfolding editing_cities_def by simp_all
  have "(fsm_data s2)\<lparr>editing_field := None\<rparr> =
        ((fsm_data s2)\<lparr>cities_to_visit := None, other_cities := None, editing_field := None\<rparr>)
          \<lparr>cities_to_visit := cities_to_visit (fsm_data s2), other_cities := other_cities (fsm_data s2)\<rparr>"
    by simp
  also have "\<dots> = ((fsm_data s)\<lparr>cities_to_visit := None, other_cities := None, editing_field := None\<rparr>)
          \<lparr>cities_to_visit := cities_to_visit (fsm_data s2), other_cities := other_cities (fsm_data s2)\<rparr>"
    unfolding frame ..
  also have "\<dots> = (fsm_data s)\<lparr>cities_to_visit := cities_to_visit (fsm_data s2),
                                 other_cities := other_cities (fsm_data s2), editing_field := None\<rparr>"
    by simp
  finally have result: "(fsm_data s2)\<lparr>editing_field := None\<rparr> =
        (fsm_data s)\<lparr>cities_to_visit := cities_to_visit (fsm_data s2),
                      other_cities := other_cities (fsm_data s2), editing_field := None\<rparr>" .
  from chosen have len: "length (get_list (cities_to_visit (fsm_data s2))) +
                         length (get_list (other_cities (fsm_data s2))) \<noteq> 0"
    by auto
  have "on_city_selection s2 (S ''city_done'') = Some (process_city_selection s2 (S ''city_done''))"
    using step by (simp add: on_city_selection_def handle_def callback_filter_def)
  moreover have "fst (process_city_selection s2 (S ''city_done'')) =
     \<lparr>fsm_state = Some TravelForm_review, fsm_data = (fsm_data s2)\<lparr>editing_field := None\<rparr>\<rparr>"
    using len marker
    by (auto simp: process_city_selection_def Let_def show_review_def set_state_def update_data_def)
  ultimately show ?thesis
    using result by (simp add: review_with_def)
qed

lemma sample_city_events:
  "city_events slash_command
     \<lparr>fsm_state = Some TravelForm_cities_to_visit,
      fsm_data = sample_data\<lparr>editing_field := Some (S ''cities'')\<rparr>\<rparr>
     [Callback (S ''city_'' @ [1052, 1077, 1082, 1082, 1072]), Callback (S ''city_other''),
      Message (text_message (S ''Rome''))] =
   Some \<lparr>fsm_state = Some TravelForm_cities_to_visit,
         fsm_data = sample_data
           \<lparr>cities_to_visit := Some [[1044, 1091, 1073, 1072, 1081], [1052, 1077, 1082, 1082, 1072]],
            other_cities := Some [S ''Paris'', S ''Rome''],
            editing_field := Some (S ''cities'')\<rparr>\<rparr>"
  by (simp add: city_event_def on_city_selection_def on_other_city_def handle_def
      callback_filter_def message_filter_def slash_command_def process_other_city_filter_def
      process_city_selection_def process_other_city_def toggle_city_def known_cities_def Let_def
      update_data_def set_state_def get_list_def sample_data_def text_message_def strip_def
      isspace_def)

lemma sample_edit_cities_returns:
  "map_option fst
     (on_city_selection
        \<lparr>fsm_state = Some TravelForm_cities_to_visit,
         fsm_data = sample_data
           \<lparr>cities_to_visit := Some [[1044, 1091, 1073, 1072, 1081], [1052, 1077, 1082, 1082, 1072]],
            other_cities := Some [S ''Paris'', S ''Rome''],
            editing_field := Some (S ''cities'')\<rparr>\<rparr>
        (S ''city_done'')) =
   Some (review_with (sample_data
           \<lparr>cities_to_visit := Some [[1044, 1091, 1073, 1072, 1081], [1052, 1077, 1082, 1082, 1072]],
            other_cities := Some [S ''Paris'', S ''Rome'']\<rparr>))"
proof -
  let ?evs = "[Callback (S ''city_'' @ [1052, 1077, 1082, 1082, 1072]), Callback (S ''city_other''),
               Message (text_message (S ''Rome''))]"
  let ?s2 = "\<lparr>fsm_state = Some TravelForm_cities_to_visit,
         fsm_data = sample_data
           \<lparr>cities_to_visit := Some [[1044, 1091, 1073, 1072, 1081], [1052, 1077, 1082, 1082, 1072]],
            other_cities := Some [S ''Paris'', S ''Rome''],
            editing_field := Some (S ''cities'')\<rparr>\<rparr>"
  have evs: "\<forall>d. Callback d \<in> set ?evs \<longrightarrow> replace_del (S ''city_'') d \<noteq> S ''done''"
    by auto
  have run: "city_events slash_command
     \<lparr>fsm_state = Some TravelForm_cities_to_visit,
      fsm_data = (fsm_data (sample_session TravelForm_review))\<lparr>editing_field := Some (S ''cities'')\<rparr>\<rparr>
     ?evs = Some ?s2"
    using sample_city_events by (simp add: sample_session_def)
  have step: "fsm_state ?s2 = Some TravelForm_cities_to_visit"
    by simp
  have chosen: "get_list (cities_to_visit (fsm_data ?s2)) @ get_list (other_cities (fsm_data ?s2)) \<noteq> []"
    by (simp add: get_list_def)
  from edit_cities_returns [OF evs run step chosen] show ?thesis
    by (simp add: sample_session_def)
qed

text \<open>
  C1. The claim fails for the phone and for the current city. From the review step,
  the buttons \<^verbatim>\<open>edit_phone\<close> and \<^verbatim>\<open>edit_current_city\<close> store the editing marker,
  and then \<^verbatim>\<open>message.edit_text\<close> raises, because it is given a reply keyboard: the
  step is never set, the conversation stays in the review step with the marker set, and
  whatever message comes next, the handler of the phone step, and that of the current
  city step, do not take it, so no new value is stored. For the other five fields the
  claim holds: see the lemmas above, from \<open>edit_days_preset_returns\<close> to
  \<open>edit_cities_returns\<close>.
\<close>

theorem edit_phone_and_current_city_stay_in_review:
  assumes "fsm_state s = Some TravelForm_review"
  shows
   "on_edit_field s (S ''edit_phone'') =
      Some (\<lparr>fsm_state = Some TravelForm_review,
             fsm_data = (fsm_data s)\<lparr>editing_field := Some (S ''phone'')\<rparr>\<rparr>,
            [Raised ValidationError]) \<and>
    next_event (on_edit_field s (S ''edit_phone'')) (\<lambda>s1. on_phone is_command nd s1 pm) = None \<and>
    on_edit_field s (S ''edit_current_city'') =
      Some (\<lparr>fsm_state = Some TravelForm_review,
             fsm_data = (fsm_data s)\<lparr>editing_field := Some (S ''current_city'')\<rparr>\<rparr>,
            [Raised ValidationError]) \<and>
    next_event (on_edit_field s (S ''edit_current_city''))
               (\<lambda>s1. on_current_city is_command s1 cm) = None"
  using assms
  by (simp add: edit_defs on_phone_def process_phone_filter_def on_current_city_def
      process_current_city_filter_def)

theorem edit_phone_and_current_city_stay_in_review_witness:
  "map_option fst (on_phone slash_command (\<lambda>c. None) (sample_session TravelForm_phone)
                     (text_message (S ''+7 900 111 22 33''))) =
     Some \<lparr>fsm_state = Some TravelForm_current_city,
           fsm_data = sample_data\<lparr>phone := Some (S ''+79001112233'')\<rparr>\<rparr> \<and>
   on_edit_field (sample_session TravelForm_review) (S ''edit_phone'') =
     Some (\<lparr>fsm_state = Some TravelForm_review,
            fsm_data = sample_data\<lparr>editing_field := Some (S ''phone'')\<rparr>\<rparr>,
           [Raised ValidationError]) \<and>
   next_event (on_edit_field (sample_session TravelForm_review) (S ''edit_phone''))
     (\<lambda>s1. on_phone slash_command (\<lambda>c. None) s1 (text_message (S ''+7 900 111 22 33''))) = None \<and>
   map_option fst (on_current_city slash_command (sample_session TravelForm_current_city)
                     (text_message (S ''Ufa''))) =
     Some \<lparr>fsm_state = Some TravelForm_cities_to_visit,
           fsm_data = sample_data\<lparr>current_city := Some (S ''Ufa''), cities_to_visit := Some [],
                                 other_cities := Some []\<rparr>\<rparr> \<and>
   on_edit_field (sample_session TravelForm_review) (S ''edit_current_city'') =
     Some (\<lparr>fsm_state = Some TravelForm_review,
            fsm_data = sample_data\<lparr>editing_field := Some (S ''current_city'')\<rparr>\<rparr>,
           [Raised ValidationError]) \<and>
   next_event (on_edit_field (sample_session TravelForm_review) (S ''edit_current_city''))
     (\<lambda>s1. on_current_city slash_command s1 (text_message (S ''Ufa''))) = None"
proof -
  let ?s = "sample_session TravelForm_review"
  have review: "fsm_state ?s = Some TravelForm_review" and data: "fsm_data ?s = sample_data"
    by (simp_all add: sample_session_def)
  note stays = edit_phone_and_current_city_stay_in_review [OF review, unfolded data,
      where is_command = slash_command and nd = "\<lambda>c. None"
        and pm = "text_message (S ''+7 900 111 22 33'')" and cm = "text_message (S ''Ufa'')"]
  have phone_step: "map_option fst (on_phone slash_command (\<lambda>c. None) (sample_session TravelForm_phone)
                     (text_message (S ''+7 900 111 22 33''))) =
     Some \<lparr>fsm_state = Some TravelForm_current_city,
           fsm_data = sample_data\<lparr>phone := Some (S ''+79001112233'')\<rparr>\<rparr>"
    by (simp add: on_phone_def handle_def message_filter_def slash_command_def
        process_phone_filter_def process_phone_def phone_regexp_def phone_input_def
        format_phone_number_def text_message_def sample_session_def sample_data_def strip_def
        isspace_def isdecimal_def decimal_def Let_def update_data_def set_state_def)
  have city_step: "map_option fst (on_current_city slash_command (sample_session TravelForm_current_city)
                     (text_message (S ''Ufa''))) =
     Some \<lparr>fsm_state = Some TravelForm_cities_to_visit,
           fsm_data = sample_data\<lparr>current_city := Some (S ''Ufa''), cities_to_visit := Some [],
                                 other_cities := Some []\<rparr>\<rparr>"
    by (simp add: on_current_city_def handle_def message_filter_def slash_command_def
        process_current_city_filter_def process_current_city_def store_current_city_def
        text_message_def sample_session_def sample_data_def strip_def isspace_def Let_def
        update_data_def set_state_def)
  from stays phone_step city_step show ?thesis
    by blast
qed

end
